theory Spec2Isabelle
  imports Main "HOL-Library.AList" "HOL-Library.Char_ord" "HOL-Library.List_Lexorder"
begin

section \<open>Strings and paths\<close>

text \<open>
  The runner (\<^verbatim>\<open>src/src/gittaskbench/gittaskbench_runner.py\<close>) handles paths with
  Python's \<^verbatim>\<open>str.startswith\<close>, \<^verbatim>\<open>str.replace\<close> and \<^verbatim>\<open>pathlib.Path\<close>.
  \<^verbatim>\<open>str.replace(old, new)\<close> replaces every non-overlapping occurrence of \<open>old\<close>,
  scanning from the left.
\<close>

definition startswith :: "string \<Rightarrow> string \<Rightarrow> bool" where
  "startswith s p = (take (length p) s = p)"

fun replace_from :: "string \<Rightarrow> string \<Rightarrow> string \<Rightarrow> string" where
  "replace_from old new [] = []"
| "replace_from old new (c # cs) =
     (if take (length old) (c # cs) = old
      then new @ replace_from old new (drop (length old - 1) cs)
      else c # replace_from old new cs)"

definition py_replace :: "string \<Rightarrow> string \<Rightarrow> string \<Rightarrow> string" where
  "py_replace s old new =
     (if old = [] then concat (map (\<lambda>c. new @ [c]) s) @ new
      else replace_from old new s)"

text \<open>
  A POSIX \<^verbatim>\<open>pathlib\<close> path is an anchor (\<open>''''\<close> for a relative path, \<open>''/''\<close>, or
  \<open>''//''\<close> when the text starts with exactly two slashes) and the list of its
  components; empty components and \<open>.\<close> are dropped when the text is parsed.
\<close>

fun split_on :: "char \<Rightarrow> string \<Rightarrow> string list" where
  "split_on sep [] = [[]]"
| "split_on sep (c # cs) =
     (if c = sep then [] # split_on sep cs
      else (case split_on sep cs of
              [] \<Rightarrow> [[c]]
            | p # ps \<Rightarrow> (c # p) # ps))"

record path =
  anchor :: string
  parts :: "string list"

definition path_anchor :: "string \<Rightarrow> string" where
  "path_anchor s =
     (if startswith s ''//'' \<and> \<not> startswith s ''///'' then ''//''
      else if startswith s ''/'' then ''/''
      else '''')"

definition Path :: "string \<Rightarrow> path" where
  "Path s = \<lparr>anchor = path_anchor s,
            parts = filter (\<lambda>p. p \<noteq> [] \<and> p \<noteq> ''.'') (split_on CHR ''/'' s)\<rparr>"

text \<open>\<^verbatim>\<open>p / s\<close>: an absolute right operand replaces the left one.\<close>

definition joinpath :: "path \<Rightarrow> string \<Rightarrow> path" where
  "joinpath p s =
     (let q = Path s
      in if anchor q \<noteq> [] then q
         else \<lparr>anchor = anchor p, parts = parts p @ parts q\<rparr>)"

fun intercalate :: "string \<Rightarrow> string list \<Rightarrow> string" where
  "intercalate sep [] = []"
| "intercalate sep [p] = p"
| "intercalate sep (p # q # ps) = p @ sep @ intercalate sep (q # ps)"

definition path_str :: "path \<Rightarrow> string" where
  "path_str p =
     (if anchor p = [] \<and> parts p = [] then ''.''
      else anchor p @ intercalate ''/'' (parts p))"

definition path_name :: "path \<Rightarrow> string" where
  "path_name p = (if parts p = [] then [] else last (parts p))"

section \<open>The runner and the documents it loads\<close>

text \<open>
  \<^verbatim>\<open>GitTaskBenchRunner.__init__\<close> fixes the benchmark root, the output root and the
  backend identifier; \<open>config_dir\<close>, \<open>queries_dir\<close> and \<open>code_base_dir\<close> are
  sub-directories of the benchmark root.
\<close>

record runner =
  gittaskbench_root :: path
  output_root :: path
  api_type :: string

definition config_dir :: "runner \<Rightarrow> path" where
  "config_dir R = joinpath (gittaskbench_root R) ''config''"

definition queries_dir :: "runner \<Rightarrow> path" where
  "queries_dir R = joinpath (gittaskbench_root R) ''queries''"

definition code_base_dir :: "runner \<Rightarrow> path" where
  "code_base_dir R = joinpath (gittaskbench_root R) ''code_base''"

text \<open>
  The documents are Python dictionaries read with \<^verbatim>\<open>.get(key, default)\<close>; a key that
  may be missing is an option. \<open>other_fields\<close> holds the evaluation metadata of
  \<^verbatim>\<open>task_info.yaml\<close>, which the runner never reads.
\<close>

record repo_info =
  repo_name :: "string option"
  repo_path :: "string option"

record data_item =
  item_path :: "string option"
  item_other :: "(string \<times> string) list"

record task_info =
  task_description :: "string option"
  repositories :: "repo_info list option"
  input_data :: "data_item list option"
  other_fields :: "(string \<times> string) list"

record file_paths =
  input_files :: "data_item list option"

record query_info =
  q_task_description :: "string option"
  q_repositories :: "repo_info list option"
  q_file_paths :: "file_paths option"

text \<open>\<^verbatim>\<open>d.get(key, default)\<close>.\<close>

definition get_or :: "'a option \<Rightarrow> 'a \<Rightarrow> 'a" where
  "get_or v d = (case v of None \<Rightarrow> d | Some x \<Rightarrow> x)"

section \<open>Exceptions, results and the file system\<close>

text \<open>
  The exceptions the runner can meet: its own \<^verbatim>\<open>ValueError\<close>s, the errors of the
  file operations it calls (\<^verbatim>\<open>FileExistsError\<close>, \<^verbatim>\<open>IsADirectoryError\<close>,
  \<^verbatim>\<open>shutil.Error\<close>, \<^verbatim>\<open>PermissionError\<close> for a removal the system refuses), the \<^verbatim>\<open>TypeError\<close> of \<^verbatim>\<open>json.dump\<close> on a value that is
  not serialisable, and whatever the agent raises (type name and message). Only
  subclasses of \<^verbatim>\<open>Exception\<close> are modelled; interrupts of the process are not.
\<close>

datatype exn =
    ValueError string
  | FileExistsError
  | IsADirectoryError
  | TypeError
  | ShutilError
  | PermissionError
  | AgentError string string

text \<open>
  The agent's payload is opaque to the runner; all that matters to it is whether
  \<^verbatim>\<open>json.dump\<close> can serialise it.
\<close>

datatype payload = JsonValue string | PyObject string

record result_data =
  r_task_id :: string
  r_success :: bool
  r_result :: payload
  r_output_dir :: string
  r_repository :: string
  r_task_description :: string

text \<open>
  \<open>e_error\<close> stands for the three entries \<^verbatim>\<open>error\<close>, \<^verbatim>\<open>error_type\<close> and
  \<^verbatim>\<open>traceback\<close> of the dictionary, all computed from the caught exception.
\<close>

record error_data =
  e_task_id :: string
  e_success :: bool
  e_error :: exn
  e_output_dir :: string

datatype exec_result = Succeeded result_data | Failed error_data

text \<open>\<^verbatim>\<open>result['success']\<close>.\<close>

fun success :: "exec_result \<Rightarrow> bool" where
  "success (Succeeded rd) = r_success rd"
| "success (Failed ed) = e_success ed"

fun result_task_id :: "exec_result \<Rightarrow> string" where
  "result_task_id (Succeeded rd) = r_task_id rd"
| "result_task_id (Failed ed) = e_task_id ed"

record summary =
  total_tasks :: nat
  successful :: nat
  failed :: nat
  success_rate :: string
  s_api_type :: string
  s_output_root :: string
  results :: "exec_result list"

text \<open>
  What a file holds: data written by the agent, or one of the JSON documents of the
  runner. \<open>TruncatedJson\<close> is the text \<^verbatim>\<open>json.dump\<close> has written to
  \<^verbatim>\<open>execution_result.json\<close> when it raises on the payload.
\<close>

datatype content =
    Data string
  | ResultJson result_data
  | TruncatedJson result_data
  | ErrorJson error_data
  | ProgressJson "exec_result list"
  | SummaryJson summary

text \<open>
  A directory is the list of its entries in \<^verbatim>\<open>iterdir\<close> order; \<open>map_of\<close> looks a
  name up and \<open>AList.update\<close> creates or replaces an entry.
\<close>

datatype node = File content | Dir "(string \<times> node) list"

type_synonym dir = "(string \<times> node) list"

text \<open>\<^verbatim>\<open>open(d / n, 'w')\<close> followed by a complete write.\<close>

definition write_file :: "dir \<Rightarrow> string \<Rightarrow> content \<Rightarrow> exn + dir" where
  "write_file d n c =
     (case map_of d n of
        Some (Dir sub) \<Rightarrow> Inl IsADirectoryError
      | _ \<Rightarrow> Inr (AList.update n (File c) d))"

text \<open>\<^verbatim>\<open>(d / n).mkdir(exist_ok=True, parents=True)\<close>.\<close>

definition mkdir_exist_ok :: "dir \<Rightarrow> string \<Rightarrow> exn + dir" where
  "mkdir_exist_ok d n =
     (case map_of d n of
        None \<Rightarrow> Inr (AList.update n (Dir []) d)
      | Some (Dir sub) \<Rightarrow> Inr d
      | Some (File c) \<Rightarrow> Inl FileExistsError)"

text \<open>
  \<^verbatim>\<open>shutil.copy2(src, d / n)\<close> for a regular file \<open>src\<close> named \<open>n\<close>: when the
  destination is a directory the file goes inside it, under the same name.
\<close>

definition copy2 :: "content \<Rightarrow> string \<Rightarrow> dir \<Rightarrow> exn + dir" where
  "copy2 c n d =
     (case map_of d n of
        Some (Dir sub) \<Rightarrow>
          (case map_of sub n of
             Some (Dir sub') \<Rightarrow> Inl IsADirectoryError
           | _ \<Rightarrow> Inr (AList.update n (Dir (AList.update n (File c) sub)) d))
      | _ \<Rightarrow> Inr (AList.update n (File c) d))"

text \<open>
  \<^verbatim>\<open>shutil.copytree(src, dst, dirs_exist_ok=True)\<close>, with \<open>dst\<close> given as what is at
  the destination (\<open>None\<close>: nothing). \<^verbatim>\<open>os.makedirs\<close> fails at once on a regular
  file. Otherwise every entry is copied, the errors of the entries are collected (here:
  counted) and copying goes on; \<^verbatim>\<open>shutil.Error\<close> is raised at the end if there were
  any. The result is what is at the destination afterwards, also after a failure.
\<close>

fun copytree :: "dir \<Rightarrow> node option \<Rightarrow> nat \<times> node"
  and copy_entries :: "dir \<Rightarrow> dir \<Rightarrow> nat \<times> dir" where
  "copytree es (Some (File c)) = (1, File c)"
| "copytree es (Some (Dir ds)) = (case copy_entries es ds of (k, ds') \<Rightarrow> (k, Dir ds'))"
| "copytree es None = (case copy_entries es [] of (k, ds') \<Rightarrow> (k, Dir ds'))"
| "copy_entries [] ds = (0, ds)"
| "copy_entries ((n, File c) # es) ds =
     (case copy2 c n ds of
        Inl e \<Rightarrow> (case copy_entries es ds of (k, ds') \<Rightarrow> (Suc k, ds'))
      | Inr ds1 \<Rightarrow> copy_entries es ds1)"
| "copy_entries ((n, Dir sub) # es) ds =
     (case copytree sub (map_of ds n) of
        (j, x) \<Rightarrow> (case copy_entries es (AList.update n x ds) of (k, ds') \<Rightarrow> (j + k, ds')))"

text \<open>The exception \<^verbatim>\<open>shutil.copytree\<close> ends with, if any.\<close>

definition copytree_raises :: "dir \<Rightarrow> node option \<Rightarrow> exn option" where
  "copytree_raises es dst =
     (case dst of
        Some (File c) \<Rightarrow> Some FileExistsError
      | _ \<Rightarrow> if fst (copytree es dst) = 0 then None else Some ShutilError)"

section \<open>The world, the agent and a single task\<close>

text \<open>
  The state the runner works on: the two stores of the benchmark tree
  (\<open>config/<task>/task_info.yaml\<close> and \<open>queries/<task>/query.json\<close>, each an
  association list from the task identifier to the parsed document), the system's
  temporary directory \<open>tmp\<close>, the contents \<open>out\<close> of the output root, the
  random names \<^verbatim>\<open>tempfile.mkdtemp\<close> will try, in order, and the names in the temporary
  directory that the system will refuse to remove (\<open>undeletable\<close>).
\<close>

record world =
  metadata :: "(string \<times> task_info) list"
  queries :: "(string \<times> query_info) list"
  tmp :: dir
  out :: dir
  names :: "string list"
  undeletable :: "string list"

definition load_task_config :: "runner \<Rightarrow> world \<Rightarrow> string \<Rightarrow> exn + task_info" where
  "load_task_config R w task_id =
     (let config_path = joinpath (joinpath (config_dir R) task_id) ''task_info.yaml''
      in case map_of (metadata w) task_id of
           None \<Rightarrow> Inl (ValueError (''Task config not found: '' @ path_str config_path))
         | Some ti \<Rightarrow>
             (case map_of (queries w) task_id of
                None \<Rightarrow> Inr ti
              | Some query_info \<Rightarrow>
                  Inr (ti\<lparr>task_description := Some (get_or (q_task_description query_info) []),
                          repositories := Some (get_or (q_repositories query_info) []),
                          input_data :=
                            Some (get_or (input_files
                                   (get_or (q_file_paths query_info) \<lparr>input_files = None\<rparr>)) [])\<rparr>)))"

text \<open>Lines 119--128: the path of the first repository.\<close>

definition resolve_repository :: "runner \<Rightarrow> repo_info \<Rightarrow> string" where
  "resolve_repository R ri =
     (let rp = get_or (repo_path ri) []
      in if startswith rp ''/GitTaskBench/''
         then (let relative_path = py_replace rp ''/GitTaskBench/'' []
               in path_str (joinpath (gittaskbench_root R) relative_path))
         else path_str (joinpath (code_base_dir R) (get_or (repo_name ri) [])))"

text \<open>Lines 134--140: one input-file descriptor, rewritten in place.\<close>

definition rewrite_item :: "runner \<Rightarrow> data_item \<Rightarrow> data_item" where
  "rewrite_item R di =
     (case item_path di of
        None \<Rightarrow> di
      | Some p \<Rightarrow>
          if startswith p ''/GitTaskBench/''
          then (let relative_path = py_replace p ''/GitTaskBench/'' []
                in di\<lparr>item_path := Some (path_str (joinpath (gittaskbench_root R) relative_path))\<rparr>)
          else di)"

text \<open>
  \<^verbatim>\<open>tempfile.mkdtemp(prefix=...)\<close> tries its random names until one is unused, and
  raises \<^verbatim>\<open>FileExistsError\<close> when it runs out of attempts.
\<close>

fun mkdtemp_pick :: "dir \<Rightarrow> string \<Rightarrow> string list \<Rightarrow> (string \<times> string list) option" where
  "mkdtemp_pick t prefix [] = None"
| "mkdtemp_pick t prefix (s # ss) =
     (if map_of t (prefix @ s) = None then Some (prefix @ s, ss)
      else mkdtemp_pick t prefix ss)"

definition mkdtemp :: "world \<Rightarrow> string \<Rightarrow> (exn + string) \<times> world" where
  "mkdtemp w prefix =
     (case mkdtemp_pick (tmp w) prefix (names w) of
        None \<Rightarrow> (Inl FileExistsError, w\<lparr>names := []\<rparr>)
      | Some (name, rest) \<Rightarrow>
          (Inr name, w\<lparr>tmp := AList.update name (Dir []) (tmp w), names := rest\<rparr>))"

text \<open>\<^verbatim>\<open>shutil.rmtree(path)\<close>: the directory is removed, or the removal raises.\<close>

definition rmtree_raising :: "world \<Rightarrow> string \<Rightarrow> exn + world" where
  "rmtree_raising w name =
     (if name \<in> set (undeletable w) then Inl PermissionError
      else Inr (w\<lparr>tmp := AList.delete name (tmp w)\<rparr>))"

text \<open>
  \<^verbatim>\<open>shutil.rmtree(temp_work_dir, ignore_errors=True)\<close>: an error of the removal is
  swallowed, and the directory is left.
\<close>

definition rmtree :: "world \<Rightarrow> string \<Rightarrow> world" where
  "rmtree w name = (case rmtree_raising w name of Inl e \<Rightarrow> w | Inr w' \<Rightarrow> w')"

text \<open>The directory \<open>output_root / task_id\<close>: its path, its entries, and storing them.\<close>

definition final_output_dir_str :: "runner \<Rightarrow> string \<Rightarrow> string" where
  "final_output_dir_str R task_id = path_str (joinpath (output_root R) task_id)"

definition final_output_dir :: "world \<Rightarrow> string \<Rightarrow> dir" where
  "final_output_dir w task_id =
     (case map_of (out w) task_id of Some (Dir d) \<Rightarrow> d | _ \<Rightarrow> [])"

definition set_final_output_dir :: "world \<Rightarrow> string \<Rightarrow> dir \<Rightarrow> world" where
  "set_final_output_dir w task_id d = w\<lparr>out := AList.update task_id (Dir d) (out w)\<rparr>"

text \<open>
  The agent (lines 158--181: backend configuration, construction and the one call of
  \<^verbatim>\<open>run_repository_agent\<close>) is a parameter. It sees its arguments and the world, works
  in the scratch directory only, and either returns a payload or raises; in both cases
  it leaves the scratch directory with some entries.
\<close>

record agent_call =
  c_api_type :: string
  c_work_dir :: string
  c_task_description :: string
  c_repository :: string
  c_input_data :: "data_item list option"

datatype agent_outcome = Returned payload | Raised exn

type_synonym agent = "agent_call \<Rightarrow> world \<Rightarrow> agent_outcome \<times> dir"

text \<open>
  Lines 188--203: the entries of the scratch directory, in turn. The first exception
  ends the loop; what was copied before stays.
\<close>

fun collect_outputs :: "string \<Rightarrow> dir \<Rightarrow> dir \<Rightarrow> exn option \<times> dir" where
  "collect_outputs repo [] d = (None, d)"
| "collect_outputs repo ((n, Dir es) # items) d =
     (if n \<in> set [repo, ''input_dataset''] then collect_outputs repo items d
      else (case copytree_raises es (map_of d n) of
              Some e \<Rightarrow> (Some e, AList.update n (snd (copytree es (map_of d n))) d)
            | None \<Rightarrow>
                collect_outputs repo items (AList.update n (snd (copytree es (map_of d n))) d)))"
| "collect_outputs repo ((n, File c) # items) d =
     (case copy2 c n d of
        Inl e \<Rightarrow> (Some e, d)
      | Inr d' \<Rightarrow> collect_outputs repo items d')"

text \<open>
  Lines 215--217: \<^verbatim>\<open>open(result_file, 'w')\<close> and \<^verbatim>\<open>json.dump\<close>. Opening truncates the
  file; a payload that is not serialisable makes \<^verbatim>\<open>json.dump\<close> raise after it has
  written the entries before it.
\<close>

definition dump_result :: "dir \<Rightarrow> result_data \<Rightarrow> exn option \<times> dir" where
  "dump_result d rd =
     (case map_of d ''execution_result.json'' of
        Some (Dir sub) \<Rightarrow> (Some IsADirectoryError, d)
      | _ \<Rightarrow>
          (case r_result rd of
             JsonValue v \<Rightarrow> (None, AList.update ''execution_result.json'' (File (ResultJson rd)) d)
           | PyObject v \<Rightarrow>
               (Some TypeError, AList.update ''execution_result.json'' (File (TruncatedJson rd)) d)))"

text \<open>
  Lines 106--148 of \<^verbatim>\<open>run_single_task\<close>, all that happens before \<^verbatim>\<open>try\<close>: the
  record is loaded, the first repository and the input files are resolved, the scratch
  directory and the output directory are made. Exceptions raised here leave
  \<^verbatim>\<open>run_single_task\<close>.
\<close>

record task_setup =
  st_task_description :: string
  st_repository :: string
  st_input_data :: "data_item list"
  st_temp_work_dir :: string

definition setup_task :: "runner \<Rightarrow> world \<Rightarrow> string \<Rightarrow> (exn + task_setup) \<times> world" where
  "setup_task R w task_id =
     (case load_task_config R w task_id of
        Inl e \<Rightarrow> (Inl e, w)
      | Inr ti \<Rightarrow>
          (case get_or (repositories ti) [] of
             [] \<Rightarrow> (Inl (ValueError (''No repository found for task '' @ task_id)), w)
           | ri # others \<Rightarrow>
               (case mkdtemp w (''repomaster_'' @ task_id @ ''_'') of
                  (Inl e, w1) \<Rightarrow> (Inl e, w1)
                | (Inr temp_work_dir, w1) \<Rightarrow>
                    (case mkdir_exist_ok (out w1) task_id of
                       Inl e \<Rightarrow> (Inl e, w1)
                     | Inr od \<Rightarrow>
                         (Inr \<lparr>st_task_description = get_or (task_description ti) [],
                               st_repository = resolve_repository R ri,
                               st_input_data = map (rewrite_item R) (get_or (input_data ti) []),
                               st_temp_work_dir = temp_work_dir\<rparr>,
                          w1\<lparr>out := od\<rparr>)))))"

text \<open>The arguments the agent is built and called with (lines 159--181).\<close>

definition agent_call_of :: "runner \<Rightarrow> task_setup \<Rightarrow> agent_call" where
  "agent_call_of R st =
     \<lparr>c_api_type = api_type R, c_work_dir = st_temp_work_dir st,
      c_task_description = st_task_description st, c_repository = st_repository st,
      c_input_data = (if st_input_data st \<noteq> [] then Some (st_input_data st) else None)\<rparr>"

text \<open>Lines 157--227, the body of \<^verbatim>\<open>try\<close>, up to the exception that leaves it.\<close>

definition try_block ::
  "runner \<Rightarrow> agent \<Rightarrow> world \<Rightarrow> string \<Rightarrow> task_setup \<Rightarrow> (exn + result_data) \<times> world" where
  "try_block R ag w task_id st =
     (case ag (agent_call_of R st) w of
        (Raised e, scratch) \<Rightarrow>
          (Inl e, w\<lparr>tmp := AList.update (st_temp_work_dir st) (Dir scratch) (tmp w)\<rparr>)
      | (Returned result, scratch) \<Rightarrow>
          (let w1 = w\<lparr>tmp := AList.update (st_temp_work_dir st) (Dir scratch) (tmp w)\<rparr>
           in case collect_outputs (path_name (Path (st_repository st))) scratch
                     (final_output_dir w1 task_id) of
                (Some e, d) \<Rightarrow> (Inl e, set_final_output_dir w1 task_id d)
              | (None, d) \<Rightarrow>
                  (let result_data =
                         \<lparr>r_task_id = task_id, r_success = True, r_result = result,
                          r_output_dir = final_output_dir_str R task_id,
                          r_repository = st_repository st,
                          r_task_description = st_task_description st\<rparr>
                   in case dump_result d result_data of
                        (Some e, d') \<Rightarrow> (Inl e, set_final_output_dir w1 task_id d')
                      | (None, d') \<Rightarrow>
                          (Inr result_data,
                           rmtree (set_final_output_dir w1 task_id d') (st_temp_work_dir st)))))"

text \<open>
  Lines 229--251, the handler. An exception of \<^verbatim>\<open>open(error_file, 'w')\<close> leaves
  the function.
\<close>

definition except_block ::
  "runner \<Rightarrow> world \<Rightarrow> string \<Rightarrow> task_setup \<Rightarrow> exn \<Rightarrow> (exn + exec_result) \<times> world" where
  "except_block R w task_id st e =
     (let error_data = \<lparr>e_task_id = task_id, e_success = False, e_error = e,
                        e_output_dir = final_output_dir_str R task_id\<rparr>
      in case write_file (final_output_dir w task_id) ''execution_error.json''
                (ErrorJson error_data) of
           Inl e' \<Rightarrow> (Inl e', w)
         | Inr d \<Rightarrow>
             (Inr (Failed error_data),
              rmtree (set_final_output_dir w task_id d) (st_temp_work_dir st)))"

text \<open>
  \<^verbatim>\<open>run_single_task\<close>. The result is the dictionary returned (\<open>Inr\<close>) or the
  exception that leaves the function (\<open>Inl\<close>), with the world as it is then. The
  console narration (\<open>verbose\<close>) has no effect on either and is left out.
\<close>

definition run_single_task ::
  "runner \<Rightarrow> agent \<Rightarrow> world \<Rightarrow> string \<Rightarrow> (exn + exec_result) \<times> world" where
  "run_single_task R ag w task_id =
     (case setup_task R w task_id of
        (Inl e, w1) \<Rightarrow> (Inl e, w1)
      | (Inr st, w2) \<Rightarrow>
          (case try_block R ag w2 task_id st of
             (Inr rd, w3) \<Rightarrow> (Inr (Succeeded rd), w3)
           | (Inl e, w3) \<Rightarrow> except_block R w3 task_id st e))"

section \<open>Batches and the summary\<close>

text \<open>
  The success rate is \<^verbatim>\<open>f"{successful/total*100:.2f}%"\<close>, computed on IEEE doubles:
  \<^verbatim>\<open>successful/total\<close> is the double nearest to the quotient, the product with 100 is
  rounded again, and \<^verbatim>\<open>.2f\<close> prints the decimal with two places nearest to the exact
  value of that double; all three round ties to even. A non-negative value is a
  fraction of two natural numbers here. Counts of tasks are far from the range where
  doubles overflow or lose precision to subnormals, which is left out.
\<close>

definition round_half_even :: "nat \<Rightarrow> nat \<Rightarrow> nat" where
  "round_half_even a b =
     (let q = a div b; r = a mod b
      in if 2 * r < b then q
         else if b < 2 * r then q + 1
         else if even q then q else q + 1)"

fun bit_length :: "nat \<Rightarrow> nat" where
  "bit_length n = (if n = 0 then 0 else Suc (bit_length (n div 2)))"

text \<open>\<open>scaled a b x\<close> is the fraction \<open>a / (b * 2 ^ x)\<close>.\<close>

definition scaled :: "nat \<Rightarrow> nat \<Rightarrow> int \<Rightarrow> nat \<times> nat" where
  "scaled a b x = (if 0 \<le> x then (a, b * 2 ^ nat x) else (a * 2 ^ nat (- x), b))"

text \<open>The double nearest to \<open>a / b\<close>: 53 significant bits.\<close>

definition to_double :: "nat \<times> nat \<Rightarrow> nat \<times> nat" where
  "to_double v =
     (case v of (a, b) \<Rightarrow>
        if a = 0 then (0, 1)
        else (let l0 = int (bit_length a) - int (bit_length b);
                  l = (case scaled a b l0 of (n, d) \<Rightarrow> if d \<le> n then l0 else l0 - 1);
                  x = l - 52;
                  m = (case scaled a b x of (n, d) \<Rightarrow> round_half_even n d)
              in scaled m 1 (- x)))"

fun str_nat :: "nat \<Rightarrow> string" where
  "str_nat n =
     (if n < 10 then [''0123456789'' ! n]
      else str_nat (n div 10) @ [''0123456789'' ! (n mod 10)])"

text \<open>\<^verbatim>\<open>f"{v:.2f}"\<close>.\<close>

definition format_2f :: "nat \<times> nat \<Rightarrow> string" where
  "format_2f v =
     (case v of (a, b) \<Rightarrow>
        (let cents = round_half_even (a * 100) b
         in str_nat (cents div 100) @ ''.'' @
            str_nat (cents mod 100 div 10) @ str_nat (cents mod 10)))"

definition success_rate_str :: "nat \<Rightarrow> nat \<Rightarrow> string" where
  "success_rate_str succ tot =
     (if 0 < tot
      then (case to_double (succ, tot) of (a, b) \<Rightarrow>
              format_2f (to_double (a * 100, b)) @ ''%'')
      else ''0%'')"

text \<open>
  \<^verbatim>\<open>get_all_tasks\<close>: the task identifiers that have a metadata document, sorted.
\<close>

definition get_all_tasks :: "world \<Rightarrow> string list" where
  "get_all_tasks w = sort (remdups (map fst (metadata w)))"

text \<open>\<^verbatim>\<open>_save_progress\<close>.\<close>

definition save_progress :: "world \<Rightarrow> exec_result list \<Rightarrow> exn + world" where
  "save_progress w rs =
     (case write_file (out w) ''evaluation_progress.json'' (ProgressJson rs) of
        Inl e \<Rightarrow> Inl e
      | Inr od \<Rightarrow> Inr (w\<lparr>out := od\<rparr>))"

text \<open>\<^verbatim>\<open>_generate_summary\<close>.\<close>

definition generate_summary ::
  "runner \<Rightarrow> world \<Rightarrow> exec_result list \<Rightarrow> nat \<Rightarrow> nat \<Rightarrow> (exn + summary) \<times> world" where
  "generate_summary R w rs succ fails =
     (let tot = length rs;
          summ = \<lparr>total_tasks = tot, successful = succ, failed = fails,
                  success_rate = success_rate_str succ tot,
                  s_api_type = api_type R, s_output_root = path_str (output_root R),
                  results = rs\<rparr>
      in case write_file (out w) ''evaluation_summary.json'' (SummaryJson summ) of
           Inl e \<Rightarrow> (Inl e, w)
         | Inr od \<Rightarrow> (Inr summ, w\<lparr>out := od\<rparr>))"

text \<open>
  Lines 275--289, the loop of \<^verbatim>\<open>run_batch\<close> with its three accumulators. An exception
  that leaves \<^verbatim>\<open>run_single_task\<close> or \<^verbatim>\<open>_save_progress\<close> leaves the loop.
\<close>

fun batch_loop ::
  "runner \<Rightarrow> agent \<Rightarrow> string list \<Rightarrow> exec_result list \<Rightarrow> nat \<Rightarrow> nat \<Rightarrow> world
     \<Rightarrow> (exn + exec_result list \<times> nat \<times> nat) \<times> world" where
  "batch_loop R ag [] rs succ fails w = (Inr (rs, succ, fails), w)"
| "batch_loop R ag (task_id # ids) rs succ fails w =
     (case run_single_task R ag w task_id of
        (Inl e, w1) \<Rightarrow> (Inl e, w1)
      | (Inr r, w1) \<Rightarrow>
          (case save_progress w1 (rs @ [r]) of
             Inl e \<Rightarrow> (Inl e, w1)
           | Inr w2 \<Rightarrow>
               (if success r
                then batch_loop R ag ids (rs @ [r]) (succ + 1) fails w2
                else batch_loop R ag ids (rs @ [r]) succ (fails + 1) w2)))"

text \<open>\<^verbatim>\<open>task_ids[:n]\<close> for a Python integer \<open>n\<close>.\<close>

definition slice_to :: "'a list \<Rightarrow> int \<Rightarrow> 'a list" where
  "slice_to xs n = (if 0 \<le> n then take (nat n) xs else take (length xs - nat (- n)) xs)"

text \<open>Lines 265--269: the tasks a batch will go through.\<close>

definition select_tasks :: "world \<Rightarrow> string list option \<Rightarrow> int option \<Rightarrow> string list" where
  "select_tasks w task_ids max_tasks =
     (let ids = (case task_ids of None \<Rightarrow> get_all_tasks w | Some l \<Rightarrow> l)
      in case max_tasks of
           None \<Rightarrow> ids
         | Some n \<Rightarrow> if n \<noteq> 0 then slice_to ids n else ids)"

definition run_batch ::
  "runner \<Rightarrow> agent \<Rightarrow> world \<Rightarrow> string list option \<Rightarrow> int option \<Rightarrow> (exn + summary) \<times> world" where
  "run_batch R ag w task_ids max_tasks =
     (case batch_loop R ag (select_tasks w task_ids max_tasks) [] 0 0 w of
        (Inl e, w1) \<Rightarrow> (Inl e, w1)
      | (Inr (rs, succ, fails), w1) \<Rightarrow> generate_summary R w1 rs succ fails)"

section \<open>Notions used in the statements\<close>

text \<open>
  A directory as the file system has it: no two entries of one directory share a name,
  at any depth.
\<close>

fun wf_node :: "node \<Rightarrow> bool" where
  "wf_node (File c) = True"
| "wf_node (Dir es) = (distinct (map fst es) \<and> (\<forall>(n, x) \<in> set es. wf_node x))"

text \<open>
  \<open>fits x y\<close>: copying \<open>x\<close> to a place where \<open>y\<close> is meets no regular file where it
  brings a directory, and no directory where it brings a regular file, at any depth.
\<close>

fun fits :: "node \<Rightarrow> node option \<Rightarrow> bool" where
  "fits x None = True"
| "fits (File c) (Some (File c')) = True"
| "fits (Dir es) (Some (Dir ds)) = (\<forall>(n, x) \<in> set es. fits x (map_of ds n))"
| "fits x y = False"

text \<open>
  \<open>merged x old new\<close>: \<open>new\<close> is \<open>old\<close> with \<open>x\<close> copied over it. A regular file is
  there with its content. A directory is there; each of its entries is merged, in turn,
  with what the old directory had under that name; and what the old directory had under
  other names is kept as it was.
\<close>

definition entries_of :: "node option \<Rightarrow> dir" where
  "entries_of y = (case y of Some (Dir ds) \<Rightarrow> ds | _ \<Rightarrow> [])"

fun merged :: "node \<Rightarrow> node option \<Rightarrow> node option \<Rightarrow> bool" where
  "merged (File c) old new = (new = Some (File c))"
| "merged (Dir es) old (Some (Dir ds')) =
     ((\<forall>(n, x) \<in> set es. merged x (map_of (entries_of old) n) (map_of ds' n)) \<and>
      (\<forall>m \<in> fst ` set (entries_of old) \<union> fst ` set ds'.
          m \<notin> fst ` set es \<longrightarrow> map_of ds' m = map_of (entries_of old) m))"
| "merged (Dir es) old new = False"

text \<open>Line 190: the entries of the scratch directory the loop does not skip.\<close>

fun is_dir :: "node \<Rightarrow> bool" where
  "is_dir (Dir es) = True"
| "is_dir (File c) = False"

definition skipped :: "string \<Rightarrow> string \<times> node \<Rightarrow> bool" where
  "skipped repo item = (is_dir (snd item) \<and> fst item \<in> set [repo, ''input_dataset''])"

section \<open>Example inputs\<close>

definition ex_runner :: runner where
  "ex_runner = \<lparr>gittaskbench_root = Path ''/bench'', output_root = Path ''results'',
                api_type = ''basic''\<rparr>"

definition ex_task_info :: task_info where
  "ex_task_info = \<lparr>task_description = Some ''from the metadata'', repositories = None,
                   input_data = None, other_fields = [(''metric'', ''f1'')]\<rparr>"

definition ex_query :: "string \<Rightarrow> query_info" where
  "ex_query d =
     \<lparr>q_task_description = Some d,
      q_repositories =
        Some [\<lparr>repo_name = Some ''foo'', repo_path = Some ''/GitTaskBench/code_base/foo''\<rparr>],
      q_file_paths =
        Some \<lparr>input_files =
                Some [\<lparr>item_path = Some ''/GitTaskBench/queries/in.txt'', item_other = []\<rparr>,
                      \<lparr>item_path = Some ''notes/in.txt'', item_other = []\<rparr>]\<rparr>\<rparr>"

text \<open>
  Tasks \<open>X\<close> (the agent returns), \<open>Y\<close> (the agent raises), \<open>F\<close> (the agent leaves a
  regular file named \<open>input_dataset\<close>), \<open>P\<close> (the agent returns an object that is
  not serialisable), \<open>N\<close> (a query document without repositories) and \<open>M\<close> (a query
  document with no field at all); \<open>Q\<close> has no query document and \<open>Z\<close> no metadata.
\<close>

definition ex_world :: world where
  "ex_world =
     \<lparr>metadata = [(''X'', ex_task_info), (''Y'', ex_task_info), (''F'', ex_task_info),
                  (''P'', ex_task_info), (''N'', ex_task_info), (''M'', ex_task_info),
                  (''Q'', ex_task_info)],
      queries = [(''X'', ex_query ''convert''), (''Y'', ex_query ''crash''),
                 (''F'', ex_query ''dataset file''), (''P'', ex_query ''object''),
                 (''N'', (ex_query ''convert'')\<lparr>q_repositories := Some []\<rparr>),
                 (''M'', \<lparr>q_task_description = None, q_repositories = None,
                           q_file_paths = None\<rparr>)],
      tmp = [], out = [], names = [''k3x9'', ''q7w1'', ''zz42''], undeletable = []\<rparr>"

definition ex_scratch :: dir where
  "ex_scratch =
     [(''out.txt'', File (Data ''hello'')),
      (''foo'', Dir [(''README'', File (Data ''cloned''))]),
      (''input_dataset'', Dir [(''in.txt'', File (Data ''input''))]),
      (''logs'', Dir [(''run.log'', File (Data ''started''))])]"

definition ex_agent :: agent where
  "ex_agent call w =
     (if c_task_description call = ''crash''
      then (Raised (AgentError ''RuntimeError'' ''boom''), [(''out.txt'', File (Data ''half''))])
      else if c_task_description call = ''dataset file''
      then (Returned (JsonValue ''done''), [(''input_dataset'', File (Data ''listing''))])
      else if c_task_description call = ''object''
      then (Returned (PyObject ''<Answer object>''), [])
      else (Returned (JsonValue ''done''), ex_scratch))"

text \<open>The output directory of \<open>P\<close> after an earlier, successful run.\<close>

definition ex_old_result :: result_data where
  "ex_old_result =
     \<lparr>r_task_id = ''P'', r_success = True, r_result = JsonValue ''earlier'',
      r_output_dir = ''results/P'', r_repository = ''/bench/code_base/foo'',
      r_task_description = ''object''\<rparr>"

definition ex_world_rerun :: world where
  "ex_world_rerun =
     ex_world\<lparr>out := [(''P'', Dir [(''execution_result.json'', File (ResultJson ex_old_result))])]\<rparr>"

text \<open>
  Worlds in which something is in the way: the place of the output directory of \<open>X\<close> is
  taken by a regular file; the place of the error JSON of \<open>Y\<close> is taken by a directory;
  the system refuses to remove the scratch directory of \<open>X\<close>.
\<close>

definition ex_world_blocked :: world where
  "ex_world_blocked = ex_world\<lparr>out := [(''X'', File (Data ''not a directory''))]\<rparr>"

definition ex_world_error_dir :: world where
  "ex_world_error_dir = ex_world\<lparr>out := [(''Y'', Dir [(''execution_error.json'', Dir [])])]\<rparr>"

definition ex_world_locked :: world where
  "ex_world_locked = ex_world\<lparr>undeletable := [''repomaster_X_k3x9'']\<rparr>"

text \<open>What \<^verbatim>\<open>run_single_task\<close> has set up for a task of \<open>ex_world\<close> when it calls the agent.\<close>

definition ex_setup :: "string \<Rightarrow> string \<Rightarrow> task_setup" where
  "ex_setup task_id d =
     \<lparr>st_task_description = d, st_repository = ''/bench/code_base/foo'',
      st_input_data = [\<lparr>item_path = Some ''/bench/queries/in.txt'', item_other = []\<rparr>,
                       \<lparr>item_path = Some ''notes/in.txt'', item_other = []\<rparr>],
      st_temp_work_dir = ''repomaster_'' @ task_id @ ''_k3x9''\<rparr>"

definition ex_world_setup :: "string \<Rightarrow> world" where
  "ex_world_setup task_id =
     ex_world\<lparr>tmp := [(''repomaster_'' @ task_id @ ''_k3x9'', Dir [])],
              out := [(task_id, Dir [])], names := [''q7w1'', ''zz42'']\<rparr>"

section \<open>Copying into a directory\<close>

lemma copy2_fits:
  assumes "fits (File c) (map_of ds n)"
  shows "copy2 c n ds = Inr (AList.update n (File c) ds)"
proof (cases "map_of ds n")
  case None
  then show ?thesis by (simp add: copy2_def)
next
  case (Some y)
  with assms show ?thesis by (cases y) (simp_all add: copy2_def)
qed

lemma copy_merge:
  shows "wf_node (Dir es) \<Longrightarrow> fits (Dir es) slot \<Longrightarrow>
         fst (copytree es slot) = 0 \<and> merged (Dir es) slot (Some (snd (copytree es slot)))"
    and "wf_node (Dir es) \<Longrightarrow> (\<forall>(n, x) \<in> set es. fits x (map_of ds n)) \<Longrightarrow>
         fst (copy_entries es ds) = 0 \<and>
         (\<forall>(n, x) \<in> set es. merged x (map_of ds n) (map_of (snd (copy_entries es ds)) n)) \<and>
         (\<forall>m. m \<notin> fst ` set es \<longrightarrow> map_of (snd (copy_entries es ds)) m = map_of ds m)"
proof (induction es slot and es ds rule: copytree_copy_entries.induct)
  case (1 es c)
  then show ?case by simp
next
  case (2 es ds)
  then show ?case by (auto simp: entries_of_def split: prod.splits)
next
  case (3 es)
  then show ?case by (auto simp: entries_of_def split: prod.splits)
next
  case (4 ds)
  then show ?case by simp
next
  case (5 n c es ds)
  have c2: "copy2 c n ds = Inr (AList.update n (File c) ds)"
    using "5.prems"(2) by (intro copy2_fits) simp
  have notin: "n \<notin> fst ` set es" using "5.prems"(1) by auto
  have wf: "wf_node (Dir es)" using "5.prems"(1) by simp
  let ?d1 = "AList.update n (File c) ds"
  have same: "\<And>m. m \<in> fst ` set es \<Longrightarrow> map_of ?d1 m = map_of ds m"
    using notin by (auto simp: AList.update_conv')
  have fits': "\<forall>(m, x) \<in> set es. fits x (map_of ?d1 m)"
    using "5.prems"(2) same by fastforce
  note IH = "5.IH"(2)[OF c2 wf fits']
  have r: "copy_entries ((n, File c) # es) ds = copy_entries es ?d1" using c2 by simp
  show ?case unfolding r
  proof (intro conjI)
    show "fst (copy_entries es ?d1) = 0" using IH by simp
    show "\<forall>(m, x) \<in> set ((n, File c) # es).
            merged x (map_of ds m) (map_of (snd (copy_entries es ?d1)) m)"
    proof (clarify)
      fix m x assume mx: "(m, x) \<in> set ((n, File c) # es)"
      show "merged x (map_of ds m) (map_of (snd (copy_entries es ?d1)) m)"
      proof (cases "(m, x) = (n, File c)")
        case True
        then show ?thesis using IH notin by (simp add: AList.update_conv')
      next
        case False
        then have in_es: "(m, x) \<in> set es" using mx by auto
        then have "m \<in> fst ` set es" by force
        then have "map_of ?d1 m = map_of ds m" by (rule same)
        then show ?thesis using IH in_es by fastforce
      qed
    qed
    show "\<forall>m. m \<notin> fst ` set ((n, File c) # es) \<longrightarrow>
            map_of (snd (copy_entries es ?d1)) m = map_of ds m"
      using IH by (auto simp: AList.update_conv')
  qed
next
  case (6 n sub es ds)
  obtain j x where ct: "copytree sub (map_of ds n) = (j, x)" by (cases "copytree sub (map_of ds n)")
  have notin: "n \<notin> fst ` set es" using "6.prems"(1) by auto
  have wf: "wf_node (Dir es)" and wfsub: "wf_node (Dir sub)" using "6.prems"(1) by simp_all
  have fsub: "fits (Dir sub) (map_of ds n)" using "6.prems"(2) by simp
  have IH1: "j = 0 \<and> merged (Dir sub) (map_of ds n) (Some x)"
    using "6.IH"(1)[OF wfsub fsub] ct by simp
  let ?d1 = "AList.update n x ds"
  have same: "\<And>m. m \<in> fst ` set es \<Longrightarrow> map_of ?d1 m = map_of ds m"
    using notin by (auto simp: AList.update_conv')
  have fits': "\<forall>(m, y) \<in> set es. fits y (map_of ?d1 m)"
    using "6.prems"(2) same by fastforce
  note IH = "6.IH"(2)[OF ct[symmetric] wf fits']
  have r: "copy_entries ((n, Dir sub) # es) ds =
             (j + fst (copy_entries es ?d1), snd (copy_entries es ?d1))"
    using ct by (simp split: prod.splits)
  show ?case unfolding r
  proof (intro conjI)
    show "fst (j + fst (copy_entries es ?d1), snd (copy_entries es ?d1)) = 0"
      using IH IH1 by simp
    show "\<forall>(m, y) \<in> set ((n, Dir sub) # es).
            merged y (map_of ds m)
              (map_of (snd (j + fst (copy_entries es ?d1), snd (copy_entries es ?d1))) m)"
    proof (clarify)
      fix m y assume my: "(m, y) \<in> set ((n, Dir sub) # es)"
      show "merged y (map_of ds m)
              (map_of (snd (j + fst (copy_entries es ?d1), snd (copy_entries es ?d1))) m)"
      proof (cases "(m, y) = (n, Dir sub)")
        case True
        then show ?thesis using IH IH1 notin by (simp add: AList.update_conv')
      next
        case False
        then have in_es: "(m, y) \<in> set es" using my by auto
        then have "m \<in> fst ` set es" by force
        then have "map_of ?d1 m = map_of ds m" by (rule same)
        then show ?thesis using IH in_es by fastforce
      qed
    qed
    show "\<forall>m. m \<notin> fst ` set ((n, Dir sub) # es) \<longrightarrow>
            map_of (snd (j + fst (copy_entries es ?d1), snd (copy_entries es ?d1))) m = map_of ds m"
      using IH by (auto simp: AList.update_conv')
  qed
qed

lemma copy2_frame:
  "copy2 c m d = Inr d' \<Longrightarrow> n \<noteq> m \<Longrightarrow> map_of d' n = map_of d n"
  by (auto simp: copy2_def AList.update_conv' split: option.splits node.splits)

lemma collect_outputs_frame:
  "n \<notin> fst ` set items \<Longrightarrow> map_of (snd (collect_outputs repo items d)) n = map_of d n"
proof (induction repo items d rule: collect_outputs.induct)
  case (1 repo d)
  then show ?case by simp
next
  case (2 repo m es items d)
  then show ?case by (auto simp: AList.update_conv' split: option.splits)
next
  case (3 repo m c items d)
  then show ?case by (auto split: sum.splits dest: copy2_frame)
qed

lemma collect_outputs_skips:
  "n \<in> set [repo, ''input_dataset''] \<Longrightarrow> \<forall>c. (n, File c) \<notin> set items \<Longrightarrow>
   map_of (snd (collect_outputs repo items d)) n = map_of d n"
proof (induction repo items d rule: collect_outputs.induct)
  case (1 repo d)
  then show ?case by simp
next
  case (2 repo m es items d)
  show ?case
  proof (cases "m \<in> set [repo, ''input_dataset'']")
    case True
    then show ?thesis using 2 by simp
  next
    case False
    then have "n \<noteq> m" using "2.prems"(1) by auto
    then show ?thesis using False 2 by (auto simp: AList.update_conv' split: option.splits)
  qed
next
  case (3 repo m c items d)
  then have "n \<noteq> m" by auto
  then show ?case using 3 by (auto split: sum.splits dest: copy2_frame)
qed

lemma collect_outputs_merge:
  "wf_node (Dir items) \<Longrightarrow>
   \<forall>(n, x) \<in> set items. \<not> skipped repo (n, x) \<longrightarrow> fits x (map_of d n) \<Longrightarrow>
   fst (collect_outputs repo items d) = None \<and>
   (\<forall>(n, x) \<in> set items. \<not> skipped repo (n, x) \<longrightarrow>
       merged x (map_of d n) (map_of (snd (collect_outputs repo items d)) n))"
proof (induction repo items d rule: collect_outputs.induct)
  case (1 repo d)
  then show ?case by simp
next
  case (2 repo m es items d)
  have notin: "m \<notin> fst ` set items" and wf: "wf_node (Dir items)" and wfes: "wf_node (Dir es)"
    using "2.prems"(1) by auto
  show ?case
  proof (cases "m \<in> set [repo, ''input_dataset'']")
    case True
    have fits': "\<forall>(n, x) \<in> set items. \<not> skipped repo (n, x) \<longrightarrow> fits x (map_of d n)"
      using "2.prems"(2) by auto
    have sk: "skipped repo (m, Dir es)" using True by (simp add: skipped_def)
    show ?thesis using "2.IH"(1)[OF True wf fits'] True sk by auto
  next
    case False
    have nsk: "\<not> skipped repo (m, Dir es)" using False by (simp add: skipped_def)
    have f: "fits (Dir es) (map_of d m)" using "2.prems"(2) nsk by auto
    have cm: "fst (copytree es (map_of d m)) = 0"
       "merged (Dir es) (map_of d m) (Some (snd (copytree es (map_of d m))))"
      using copy_merge(1)[OF wfes f] by simp_all
    have nofile: "\<And>c. map_of d m \<noteq> Some (File c)" using f by (cases "map_of d m") auto
    have cr: "copytree_raises es (map_of d m) = None"
      using cm(1) nofile by (auto simp: copytree_raises_def split: option.splits node.splits)
    let ?d1 = "AList.update m (snd (copytree es (map_of d m))) d"
    have same: "\<And>k. k \<in> fst ` set items \<Longrightarrow> map_of ?d1 k = map_of d k"
      using notin by (auto simp: AList.update_conv')
    have fits': "\<forall>(n, x) \<in> set items. \<not> skipped repo (n, x) \<longrightarrow> fits x (map_of ?d1 n)"
      using "2.prems"(2) same by fastforce
    note IH = "2.IH"(2)[OF False cr wf fits']
    have r: "collect_outputs repo ((m, Dir es) # items) d = collect_outputs repo items ?d1"
      using False cr by simp
    show ?thesis unfolding r
    proof (intro conjI)
      show "fst (collect_outputs repo items ?d1) = None" using IH by simp
      show "\<forall>(n, x) \<in> set ((m, Dir es) # items). \<not> skipped repo (n, x) \<longrightarrow>
              merged x (map_of d n) (map_of (snd (collect_outputs repo items ?d1)) n)"
      proof (clarify)
        fix n x assume nx: "(n, x) \<in> set ((m, Dir es) # items)" and ns: "\<not> skipped repo (n, x)"
        show "merged x (map_of d n) (map_of (snd (collect_outputs repo items ?d1)) n)"
        proof (cases "(n, x) = (m, Dir es)")
          case True
          have "map_of (snd (collect_outputs repo items ?d1)) m = map_of ?d1 m"
            using notin by (rule collect_outputs_frame)
          then show ?thesis using True cm(2) by (simp add: AList.update_conv')
        next
          case False
          then have in_items: "(n, x) \<in> set items" using nx by auto
          then have "n \<in> fst ` set items" by force
          then have "map_of ?d1 n = map_of d n" by (rule same)
          then show ?thesis using IH in_items ns by fastforce
        qed
      qed
    qed
  qed
next
  case (3 repo m c items d)
  have notin: "m \<notin> fst ` set items" and wf: "wf_node (Dir items)"
    using "3.prems"(1) by auto
  have nsk: "\<not> skipped repo (m, File c)" by (simp add: skipped_def)
  have f: "fits (File c) (map_of d m)" using "3.prems"(2) nsk by auto
  have c2: "copy2 c m d = Inr (AList.update m (File c) d)" using f by (rule copy2_fits)
  let ?d1 = "AList.update m (File c) d"
  have same: "\<And>k. k \<in> fst ` set items \<Longrightarrow> map_of ?d1 k = map_of d k"
    using notin by (auto simp: AList.update_conv')
  have fits': "\<forall>(n, x) \<in> set items. \<not> skipped repo (n, x) \<longrightarrow> fits x (map_of ?d1 n)"
    using "3.prems"(2) same by fastforce
  note IH = "3.IH"[OF c2 wf fits']
  have r: "collect_outputs repo ((m, File c) # items) d = collect_outputs repo items ?d1"
    using c2 by simp
  show ?case unfolding r
  proof (intro conjI)
    show "fst (collect_outputs repo items ?d1) = None" using IH by simp
    show "\<forall>(n, x) \<in> set ((m, File c) # items). \<not> skipped repo (n, x) \<longrightarrow>
            merged x (map_of d n) (map_of (snd (collect_outputs repo items ?d1)) n)"
    proof (clarify)
      fix n x assume nx: "(n, x) \<in> set ((m, File c) # items)" and ns: "\<not> skipped repo (n, x)"
      show "merged x (map_of d n) (map_of (snd (collect_outputs repo items ?d1)) n)"
      proof (cases "(n, x) = (m, File c)")
        case True
        have "map_of (snd (collect_outputs repo items ?d1)) m = map_of ?d1 m"
          using notin by (rule collect_outputs_frame)
        then show ?thesis using True by (simp add: AList.update_conv')
      next
        case False
        then have in_items: "(n, x) \<in> set items" using nx by auto
        then have "n \<in> fst ` set items" by force
        then have "map_of ?d1 n = map_of d n" by (rule same)
        then show ?thesis using IH in_items ns by fastforce
      qed
    qed
  qed
qed

section \<open>What a single task does to the world\<close>

lemma mkdtemp_pick_fresh:
  "mkdtemp_pick t prefix ns = Some (name, rest) \<Longrightarrow> map_of t name = None"
  by (induction ns) (auto split: if_splits)

lemma final_output_dir_simps [simp]:
  "final_output_dir (set_final_output_dir w task_id d) task_id = d"
  "final_output_dir (rmtree w name) task_id = final_output_dir w task_id"
  "final_output_dir (w\<lparr>tmp := x\<rparr>) task_id = final_output_dir w task_id"
  "final_output_dir (w\<lparr>names := y\<rparr>) task_id = final_output_dir w task_id"
  by (simp_all add: final_output_dir_def set_final_output_dir_def rmtree_def rmtree_raising_def
        AList.update_conv')

lemma world_update_simps [simp]:
  "tmp (set_final_output_dir w task_id d) = tmp w"
  "metadata (set_final_output_dir w task_id d) = metadata w"
  "queries (set_final_output_dir w task_id d) = queries w"
  "names (set_final_output_dir w task_id d) = names w"
  "undeletable (set_final_output_dir w task_id d) = undeletable w"
  "tmp (rmtree w name) =
     (if name \<in> set (undeletable w) then tmp w else AList.delete name (tmp w))"
  "out (rmtree w name) = out w"
  "metadata (rmtree w name) = metadata w"
  "queries (rmtree w name) = queries w"
  "names (rmtree w name) = names w"
  "undeletable (rmtree w name) = undeletable w"
  by (simp_all add: set_final_output_dir_def rmtree_def rmtree_raising_def)

lemma out_set_final_output_dir:
  "n \<noteq> task_id \<Longrightarrow> map_of (out (set_final_output_dir w task_id d)) n = map_of (out w) n"
  by (simp add: set_final_output_dir_def AList.update_conv')

lemma setup_task_Inr:
  assumes "setup_task R w task_id = (Inr st, w2)"
  shows "final_output_dir w2 task_id = final_output_dir w task_id"
    and "\<exists>d. map_of (out w2) task_id = Some (Dir d)"
    and "n \<noteq> task_id \<Longrightarrow> map_of (out w2) n = map_of (out w) n"
    and "map_of (tmp w) (st_temp_work_dir st) = None"
    and "tmp w2 = AList.update (st_temp_work_dir st) (Dir []) (tmp w)"
    and "metadata w2 = metadata w" and "queries w2 = queries w"
    and "undeletable w2 = undeletable w"
  using assms
  by (auto simp: setup_task_def mkdtemp_def mkdir_exist_ok_def final_output_dir_def
        AList.update_conv' 
      split: sum.splits list.splits option.splits prod.splits node.splits
      dest: mkdtemp_pick_fresh)

lemma setup_task_Inl:
  assumes "setup_task R w task_id = (Inl e, w1)"
  shows "out w1 = out w" and "metadata w1 = metadata w" and "queries w1 = queries w"
  using assms
  by (auto simp: setup_task_def mkdtemp_def mkdir_exist_ok_def
      split: sum.splits list.splits option.splits prod.splits node.splits)

lemma dump_result_frame:
  "n \<noteq> ''execution_result.json'' \<Longrightarrow> map_of (snd (dump_result d rd)) n = map_of d n"
  by (auto simp: dump_result_def AList.update_conv' split: option.splits node.splits payload.splits)

lemma except_block_frame:
  assumes "except_block R w3 task_id st e = (res, w')"
  shows "n \<noteq> ''execution_error.json'' \<Longrightarrow>
           map_of (final_output_dir w' task_id) n = map_of (final_output_dir w3 task_id) n"
    and "m \<noteq> task_id \<Longrightarrow> map_of (out w') m = map_of (out w3) m"
    and "metadata w' = metadata w3" and "queries w' = queries w3"
  using assms
  by (auto simp: except_block_def write_file_def Let_def AList.update_conv' out_set_final_output_dir
      split: sum.splits option.splits node.splits)

lemma except_block_Inr:
  assumes "except_block R w3 task_id st e = (Inr r, w')"
  shows "r = Failed \<lparr>e_task_id = task_id, e_success = False, e_error = e,
                      e_output_dir = final_output_dir_str R task_id\<rparr>"
    and "map_of (final_output_dir w' task_id) ''execution_error.json'' =
           Some (File (ErrorJson \<lparr>e_task_id = task_id, e_success = False, e_error = e,
                      e_output_dir = final_output_dir_str R task_id\<rparr>))"
    and "tmp w' = (if st_temp_work_dir st \<in> set (undeletable w3) then tmp w3
                   else AList.delete (st_temp_work_dir st) (tmp w3))"
  using assms
  by (auto simp: except_block_def write_file_def Let_def AList.update_conv'
      split: sum.splits option.splits node.splits)

lemma except_block_writable:
  assumes "\<forall>sub. map_of (final_output_dir w3 task_id) ''execution_error.json'' \<noteq> Some (Dir sub)"
  shows "\<exists>w'. except_block R w3 task_id st e =
           (Inr (Failed \<lparr>e_task_id = task_id, e_success = False, e_error = e,
                      e_output_dir = final_output_dir_str R task_id\<rparr>), w')"
  using assms
  by (auto simp: except_block_def write_file_def Let_def split: option.splits node.splits)

text \<open>The run, by what the agent does.\<close>

lemma run_agent_raised:
  assumes "setup_task R w task_id = (Inr st, w2)"
      and "ag (agent_call_of R st) w2 = (Raised e, scratch)"
  shows "run_single_task R ag w task_id =
           except_block R (w2\<lparr>tmp := AList.update (st_temp_work_dir st) (Dir scratch) (tmp w2)\<rparr>)
             task_id st e"
  using assms by (simp add: run_single_task_def try_block_def)

lemma run_agent_returned:
  assumes "setup_task R w task_id = (Inr st, w2)"
      and "ag (agent_call_of R st) w2 = (Returned p, scratch)"
      and "collect_outputs (path_name (Path (st_repository st))) scratch
              (final_output_dir w task_id) = (ce, d1)"
  shows "run_single_task R ag w task_id =
           (let w1 = w2\<lparr>tmp := AList.update (st_temp_work_dir st) (Dir scratch) (tmp w2)\<rparr>;
                rd = \<lparr>r_task_id = task_id, r_success = True, r_result = p,
                      r_output_dir = final_output_dir_str R task_id,
                      r_repository = st_repository st,
                      r_task_description = st_task_description st\<rparr>
            in case ce of
              Some e \<Rightarrow> except_block R (set_final_output_dir w1 task_id d1) task_id st e
            | None \<Rightarrow>
                (case dump_result d1 rd of
                   (Some e, d2) \<Rightarrow> except_block R (set_final_output_dir w1 task_id d2) task_id st e
                 | (None, d2) \<Rightarrow>
                     (Inr (Succeeded rd),
                      rmtree (set_final_output_dir w1 task_id d2) (st_temp_work_dir st))))"
  using assms setup_task_Inr(1)[OF assms(1)]
  by (simp add: run_single_task_def try_block_def Let_def split: option.splits prod.splits)

text \<open>
  Outside the two JSON files of the runner, the output directory of the task ends as
  the loop over the scratch directory left it, or as it was when the agent raised.
\<close>

lemma run_single_task_frame:
  assumes "setup_task R w task_id = (Inr st, w2)"
      and "ag (agent_call_of R st) w2 = (oc, scratch)"
      and "n \<noteq> ''execution_result.json''" and "n \<noteq> ''execution_error.json''"
  shows "map_of (final_output_dir (snd (run_single_task R ag w task_id)) task_id) n =
           (case oc of
              Raised e \<Rightarrow> map_of (final_output_dir w task_id) n
            | Returned p \<Rightarrow>
                map_of (snd (collect_outputs (path_name (Path (st_repository st))) scratch
                              (final_output_dir w task_id))) n)"
proof (cases oc)
  case (Raised e)
  let ?w3 = "w2\<lparr>tmp := AList.update (st_temp_work_dir st) (Dir scratch) (tmp w2)\<rparr>"
  have r: "run_single_task R ag w task_id = except_block R ?w3 task_id st e"
    using assms(1,2) Raised by (simp add: run_agent_raised)
  obtain res w' where eb: "except_block R ?w3 task_id st e = (res, w')"
    by (cases "except_block R ?w3 task_id st e")
  show ?thesis
    using except_block_frame(1)[OF eb assms(4)] r eb Raised setup_task_Inr(1)[OF assms(1)]
    by simp
next
  case (Returned p)
  let ?w1 = "w2\<lparr>tmp := AList.update (st_temp_work_dir st) (Dir scratch) (tmp w2)\<rparr>"
  let ?rd = "\<lparr>r_task_id = task_id, r_success = True, r_result = p,
                 r_output_dir = final_output_dir_str R task_id,
                 r_repository = st_repository st,
                 r_task_description = st_task_description st\<rparr>"
  obtain ce d1 where co: "collect_outputs (path_name (Path (st_repository st))) scratch
              (final_output_dir w task_id) = (ce, d1)"
    by (cases "collect_outputs (path_name (Path (st_repository st))) scratch
              (final_output_dir w task_id)")
  note r = run_agent_returned[where ag = ag, OF assms(1) assms(2)[unfolded Returned] co, unfolded Let_def]
  show ?thesis
  proof (cases ce)
    case (Some e)
    obtain res w' where eb: "except_block R (set_final_output_dir ?w1 task_id d1) task_id st e = (res, w')"
      by (cases "except_block R (set_final_output_dir ?w1 task_id d1) task_id st e")
    show ?thesis using except_block_frame(1)[OF eb assms(4)] r eb Some Returned co by simp
  next
    case None
    obtain de d2 where dr: "dump_result d1 ?rd = (de, d2)" by (cases "dump_result d1 ?rd")
    have d2: "map_of d2 n = map_of d1 n" using dump_result_frame[OF assms(3), of d1 ?rd] dr by simp
    show ?thesis
    proof (cases de)
      case (Some e)
      obtain res w' where eb: "except_block R (set_final_output_dir ?w1 task_id d2) task_id st e = (res, w')"
        by (cases "except_block R (set_final_output_dir ?w1 task_id d2) task_id st e")
      show ?thesis using except_block_frame(1)[OF eb assms(4)] r eb Some None Returned co dr d2
        by simp
    next
      case None2: None
      show ?thesis using r None None2 Returned co dr d2 by simp
    qed
  qed
qed

section \<open>Evaluating the examples\<close>

lemmas path_defs = Path_def path_anchor_def startswith_def joinpath_def path_str_def path_name_def
  config_dir_def queries_dir_def code_base_dir_def py_replace_def

lemmas ex_defs = ex_runner_def ex_task_info_def ex_query_def ex_world_def ex_scratch_def
  ex_agent_def ex_old_result_def ex_world_rerun_def ex_setup_def ex_world_setup_def
  ex_world_blocked_def ex_world_error_dir_def ex_world_locked_def

lemmas run_defs = run_single_task_def setup_task_def try_block_def except_block_def
  load_task_config_def resolve_repository_def rewrite_item_def get_or_def mkdtemp_def
  mkdir_exist_ok_def agent_call_of_def final_output_dir_def final_output_dir_str_def
  set_final_output_dir_def rmtree_def rmtree_raising_def dump_result_def write_file_def
  copy2_def
  copytree_raises_def Let_def

lemmas batch_defs = run_batch_def select_tasks_def slice_to_def save_progress_def
  generate_summary_def success_rate_str_def to_double_def scaled_def round_half_even_def
  format_2f_def

lemma ex_setup_task:
  "task_id \<in> set [''X'', ''Y'', ''F'', ''P''] \<Longrightarrow>
   setup_task ex_runner ex_world task_id =
     (Inr (ex_setup task_id
            (if task_id = ''X'' then ''convert'' else if task_id = ''Y'' then ''crash''
             else if task_id = ''F'' then ''dataset file'' else ''object'')),
      ex_world_setup task_id)"
  by (auto simp: run_defs ex_defs path_defs)

section \<open>Loading the task record\<close>

text \<open>
  C5. A task identifier with no metadata document: \<^verbatim>\<open>load_task_config\<close> raises the
  \<^verbatim>\<open>ValueError\<close> "Task config not found", \<^verbatim>\<open>run_single_task\<close> ends with that
  exception, and the world is what it was: no scratch directory, no output directory,
  no error JSON.
\<close>

theorem missing_metadata_config_error:
  assumes "map_of (metadata w) task_id = None"
  shows "load_task_config R w task_id =
           Inl (ValueError (''Task config not found: '' @
                  path_str (joinpath (joinpath (config_dir R) task_id) ''task_info.yaml'')))
         \<and> run_single_task R ag w task_id =
           (Inl (ValueError (''Task config not found: '' @
                  path_str (joinpath (joinpath (config_dir R) task_id) ''task_info.yaml''))), w)"
  using assms by (simp add: load_task_config_def run_single_task_def setup_task_def)

theorem missing_metadata_config_error_witness:
  "map_of (metadata ex_world) ''Z'' = None
   \<and> load_task_config ex_runner ex_world ''Z'' =
       Inl (ValueError ''Task config not found: /bench/config/Z/task_info.yaml'')
   \<and> run_single_task ex_runner ex_agent ex_world ''Z'' =
       (Inl (ValueError ''Task config not found: /bench/config/Z/task_info.yaml''), ex_world)"
proof -
  have h: "map_of (metadata ex_world) ''Z'' = None" by (simp add: ex_defs)
  have p: "path_str (joinpath (joinpath (config_dir ex_runner) ''Z'') ''task_info.yaml'') =
             ''/bench/config/Z/task_info.yaml''"
    by (simp add: ex_defs path_defs)
  show ?thesis
    using h missing_metadata_config_error [OF h, of ex_runner ex_agent] unfolding p by simp
qed

text \<open>
  C7, as the code has it. When the metadata document exists, loading succeeds. With a
  query document, the description, the repository list and the input-file list of the
  record are those of the query document, each replaced by its empty default when the
  query document lacks it, whatever the metadata document had under that key; the other
  metadata fields are kept. Without a query document the record is the metadata
  document, unchanged.
\<close>

theorem load_task_config_merge:
  assumes "map_of (metadata w) task_id = Some ti"
  shows "\<exists>ti'. load_task_config R w task_id = Inr ti' \<and> other_fields ti' = other_fields ti \<and>
           (case map_of (queries w) task_id of
              None \<Rightarrow> ti' = ti
            | Some q \<Rightarrow>
                task_description ti' =
                  Some (case q_task_description q of Some d \<Rightarrow> d | None \<Rightarrow> []) \<and>
                repositories ti' =
                  Some (case q_repositories q of Some rs \<Rightarrow> rs | None \<Rightarrow> []) \<and>
                input_data ti' =
                  Some (case q_file_paths q of
                          Some fp \<Rightarrow> (case input_files fp of Some fs \<Rightarrow> fs | None \<Rightarrow> [])
                        | None \<Rightarrow> []))"
  using assms
  by (auto simp: load_task_config_def get_or_def split: option.splits)

theorem load_task_config_merge_witness:
  "map_of (metadata ex_world) ''X'' = Some ex_task_info
   \<and> (\<exists>ti'. load_task_config ex_runner ex_world ''X'' = Inr ti' \<and>
         other_fields ti' = [(''metric'', ''f1'')] \<and>
         task_description ti' = Some ''convert'' \<and>
         repositories ti' =
           Some [\<lparr>repo_name = Some ''foo'', repo_path = Some ''/GitTaskBench/code_base/foo''\<rparr>] \<and>
         input_data ti' =
           Some [\<lparr>item_path = Some ''/GitTaskBench/queries/in.txt'', item_other = []\<rparr>,
                 \<lparr>item_path = Some ''notes/in.txt'', item_other = []\<rparr>])
   \<and> map_of (metadata ex_world) ''Q'' = Some ex_task_info
   \<and> map_of (queries ex_world) ''Q'' = None
   \<and> (\<exists>ti'. load_task_config ex_runner ex_world ''Q'' = Inr ti' \<and>
         other_fields ti' = [(''metric'', ''f1'')] \<and> ti' = ex_task_info)"
proof -
  have h: "map_of (metadata ex_world) ''X'' = Some ex_task_info" by (simp add: ex_defs)
  have q: "map_of (queries ex_world) ''X'' = Some (ex_query ''convert'')" by (simp add: ex_world_def)
  have hq: "map_of (metadata ex_world) ''Q'' = Some ex_task_info" by (simp add: ex_defs)
  have qq: "map_of (queries ex_world) ''Q'' = None" by (simp add: ex_world_def)
  have a: "\<exists>ti'. load_task_config ex_runner ex_world ''X'' = Inr ti' \<and>
         other_fields ti' = [(''metric'', ''f1'')] \<and>
         task_description ti' = Some ''convert'' \<and>
         repositories ti' =
           Some [\<lparr>repo_name = Some ''foo'', repo_path = Some ''/GitTaskBench/code_base/foo''\<rparr>] \<and>
         input_data ti' =
           Some [\<lparr>item_path = Some ''/GitTaskBench/queries/in.txt'', item_other = []\<rparr>,
                 \<lparr>item_path = Some ''notes/in.txt'', item_other = []\<rparr>]"
    using load_task_config_merge [OF h, of ex_runner] unfolding q
    by (simp add: ex_query_def ex_task_info_def)
  have b: "\<exists>ti'. load_task_config ex_runner ex_world ''Q'' = Inr ti' \<and>
         other_fields ti' = [(''metric'', ''f1'')] \<and> ti' = ex_task_info"
    using load_task_config_merge [OF hq, of ex_runner] unfolding qq
    by (simp add: ex_task_info_def)
  show ?thesis by (intro conjI) (rule h a hq qq b)+
qed

text \<open>
  C7 as stated fails: the metadata document of \<open>M\<close> has a description, its query
  document has none, and the loaded record has the empty description.
\<close>

theorem load_task_config_loses_metadata_field:
  "map_of (metadata ex_world) ''M'' = Some ex_task_info
   \<and> task_description ex_task_info = Some ''from the metadata''
   \<and> map_of (queries ex_world) ''M'' =
       Some \<lparr>q_task_description = None, q_repositories = None, q_file_paths = None\<rparr>
   \<and> load_task_config ex_runner ex_world ''M'' =
       Inr (ex_task_info\<lparr>task_description := Some [], repositories := Some [],
                          input_data := Some []\<rparr>)"
  by (simp add: ex_defs load_task_config_def get_or_def)

section \<open>Resolving paths\<close>

text \<open>
  C8. \<^verbatim>\<open>str.replace\<close> removes every occurrence of \<open>/GitTaskBench/\<close>, not the prefix
  alone: for the path \<open>/GitTaskBench/a/GitTaskBench/b\<close> the remainder after the prefix
  is \<open>a/GitTaskBench/b\<close>, which joined with the root \<open>/bench\<close> is
  \<open>/bench/a/GitTaskBench/b\<close>, and the code gives \<open>/bench/ab\<close>, for a repository and
  for an input file.
\<close>

theorem placeholder_removed_inside_path:
  "resolve_repository ex_runner
      \<lparr>repo_name = Some ''b'', repo_path = Some ''/GitTaskBench/a/GitTaskBench/b''\<rparr> = ''/bench/ab''
   \<and> item_path (rewrite_item ex_runner
         \<lparr>item_path = Some ''/GitTaskBench/a/GitTaskBench/b'', item_other = []\<rparr>) = Some ''/bench/ab''
   \<and> path_str (joinpath (gittaskbench_root ex_runner) ''a/GitTaskBench/b'') =
         ''/bench/a/GitTaskBench/b''"
  by (simp add: resolve_repository_def rewrite_item_def ex_runner_def get_or_def path_defs)

text \<open>
  Where the code does remove the prefix alone, or has none to remove: a path without
  the prefix (an input file is left as given, a repository falls back to
  \<open>code_base/<name>\<close>), and a path whose remainder holds no further
  \<open>/GitTaskBench/\<close>.
\<close>

lemma replace_from_absent:
  "\<forall>k. take (length old) (drop k s) \<noteq> old \<Longrightarrow> old \<noteq> [] \<Longrightarrow> replace_from old new s = s"
proof (induction s)
  case Nil
  then show ?case by simp
next
  case (Cons c cs)
  have "take (length old) (c # cs) \<noteq> old"
    using Cons.prems(1)[rule_format, of 0] by simp
  moreover have "\<forall>k. take (length old) (drop k cs) \<noteq> old"
    using Cons.prems(1) by (metis drop_Suc_Cons)
  ultimately show ?case using Cons.IH Cons.prems(2) by simp
qed

lemma py_replace_prefix_once:
  assumes "\<forall>k. take (length old) (drop k rest) \<noteq> old" and "old \<noteq> []"
  shows "py_replace (old @ rest) old [] = rest"
proof -
  obtain c cs where oc: "old = c # cs" using assms(2) by (cases old) auto
  have "replace_from old [] (old @ rest) = replace_from old [] rest"
    unfolding oc by simp
  then show ?thesis using assms by (simp add: py_replace_def replace_from_absent)
qed

lemma resolve_repository_cases:
  "\<not> startswith rp ''/GitTaskBench/'' \<Longrightarrow>
     resolve_repository R \<lparr>repo_name = Some nm, repo_path = Some rp\<rparr> =
       path_str (joinpath (code_base_dir R) nm)"
  "\<forall>k. take (length ''/GitTaskBench/'') (drop k rest) \<noteq> ''/GitTaskBench/'' \<Longrightarrow>
     resolve_repository R \<lparr>repo_name = nmo, repo_path = Some (''/GitTaskBench/'' @ rest)\<rparr> =
       path_str (joinpath (gittaskbench_root R) rest)"
proof -
  show "\<not> startswith rp ''/GitTaskBench/'' \<Longrightarrow>
     resolve_repository R \<lparr>repo_name = Some nm, repo_path = Some rp\<rparr> =
       path_str (joinpath (code_base_dir R) nm)"
    by (simp add: resolve_repository_def get_or_def)
next
  assume a: "\<forall>k. take (length ''/GitTaskBench/'') (drop k rest) \<noteq> ''/GitTaskBench/''"
  have sw: "startswith (''/GitTaskBench/'' @ rest) ''/GitTaskBench/''"
    by (simp add: startswith_def)
  have "py_replace (''/GitTaskBench/'' @ rest) ''/GitTaskBench/'' [] = rest"
    using a by (intro py_replace_prefix_once) simp_all
  then show "resolve_repository R \<lparr>repo_name = nmo, repo_path = Some (''/GitTaskBench/'' @ rest)\<rparr> =
       path_str (joinpath (gittaskbench_root R) rest)"
    using sw by (simp add: resolve_repository_def get_or_def Let_def)
qed

lemma rewrite_item_cases:
  "\<not> startswith p ''/GitTaskBench/'' \<Longrightarrow> rewrite_item R (di\<lparr>item_path := Some p\<rparr>) = di\<lparr>item_path := Some p\<rparr>"
  "item_path di = None \<Longrightarrow> rewrite_item R di = di"
  by (simp_all add: rewrite_item_def)

section \<open>The scratch directory\<close>





section \<open>Collecting the outputs\<close>

text \<open>
  C1, as the code has it. The loop over the scratch directory is inside \<^verbatim>\<open>try\<close>, after
  the call of the agent. When the agent returns, the scratch directory is a directory as
  a file system has it, and nothing it brings meets an entry of the other kind in the
  output directory, every top-level entry that is not skipped is in the output
  directory after the run: a regular file with its content, a directory merged,
  recursively, with what the output directory had under that name. (The two names of
  the runner's own JSON files are left aside: the runner writes them afterwards.) When
  the agent raises, nothing is copied: but for the error JSON, the output directory is
  what it was.
\<close>

theorem outputs_collected_when_agent_returns:
  assumes "setup_task R w task_id = (Inr st, w2)"
      and "ag (agent_call_of R st) w2 = (oc, scratch)"
      and "d = final_output_dir w task_id"
      and "d' = final_output_dir (snd (run_single_task R ag w task_id)) task_id"
      and "repo = path_name (Path (st_repository st))"
  shows "((\<exists>p. oc = Returned p) \<longrightarrow> wf_node (Dir scratch) \<longrightarrow>
            (\<forall>(n, x) \<in> set scratch. \<not> skipped repo (n, x) \<longrightarrow> fits x (map_of d n)) \<longrightarrow>
            (\<forall>(n, x) \<in> set scratch. \<not> skipped repo (n, x) \<longrightarrow>
                n \<noteq> ''execution_result.json'' \<longrightarrow> n \<noteq> ''execution_error.json'' \<longrightarrow>
                merged x (map_of d n) (map_of d' n)))
         \<and> ((\<exists>e. oc = Raised e) \<longrightarrow>
            (\<forall>n. n \<noteq> ''execution_error.json'' \<longrightarrow> map_of d' n = map_of d n))"
proof (intro conjI impI)
  assume ret: "\<exists>p. oc = Returned p" and wf: "wf_node (Dir scratch)"
    and fits: "\<forall>(n, x) \<in> set scratch. \<not> skipped repo (n, x) \<longrightarrow> fits x (map_of d n)"
  from ret obtain p where oc: "oc = Returned p" by blast
  note cm = collect_outputs_merge[OF wf fits]
  show "\<forall>(n, x) \<in> set scratch. \<not> skipped repo (n, x) \<longrightarrow>
          n \<noteq> ''execution_result.json'' \<longrightarrow> n \<noteq> ''execution_error.json'' \<longrightarrow>
          merged x (map_of d n) (map_of d' n)"
  proof (clarify)
    fix n x
    assume nx: "(n, x) \<in> set scratch" and ns: "\<not> skipped repo (n, x)"
      and n1: "n \<noteq> ''execution_result.json''" and n2: "n \<noteq> ''execution_error.json''"
    have "map_of d' n = map_of (snd (collect_outputs repo scratch d)) n"
      using run_single_task_frame[where ag = ag, OF assms(1,2) n1 n2] oc assms(3,4,5) by simp
    moreover have "merged x (map_of d n) (map_of (snd (collect_outputs repo scratch d)) n)"
      using cm nx ns by fastforce
    ultimately show "merged x (map_of d n) (map_of d' n)" by simp
  qed
next
  assume "\<exists>e. oc = Raised e"
  then obtain e where oc: "oc = Raised e" by blast
  let ?w3 = "w2\<lparr>tmp := AList.update (st_temp_work_dir st) (Dir scratch) (tmp w2)\<rparr>"
  have r: "run_single_task R ag w task_id = except_block R ?w3 task_id st e"
    using run_agent_raised[where ag = ag, OF assms(1) assms(2)[unfolded oc]] .
  obtain res w' where eb: "except_block R ?w3 task_id st e = (res, w')"
    by (cases "except_block R ?w3 task_id st e")
  show "\<forall>n. n \<noteq> ''execution_error.json'' \<longrightarrow> map_of d' n = map_of d n"
    using except_block_frame(1)[OF eb] r eb setup_task_Inr(1)[OF assms(1)] assms(3,4)
    by simp
qed

theorem outputs_collected_when_agent_returns_witness:
  "setup_task ex_runner ex_world ''X'' = (Inr (ex_setup ''X'' ''convert''), ex_world_setup ''X'')
   \<and> ex_agent (agent_call_of ex_runner (ex_setup ''X'' ''convert'')) (ex_world_setup ''X'') =
       (Returned (JsonValue ''done''), ex_scratch)
   \<and> wf_node (Dir ex_scratch)
   \<and> fits (File (Data ''hello'')) (map_of (final_output_dir ex_world ''X'') ''out.txt'')
   \<and> fits (Dir [(''run.log'', File (Data ''started''))])
        (map_of (final_output_dir ex_world ''X'') ''logs'')
   \<and> map_of (final_output_dir (snd (run_single_task ex_runner ex_agent ex_world ''X'')) ''X'')
        ''out.txt'' = Some (File (Data ''hello''))
   \<and> merged (Dir [(''run.log'', File (Data ''started''))]) None
        (map_of (final_output_dir (snd (run_single_task ex_runner ex_agent ex_world ''X'')) ''X'')
           ''logs'')
   \<and> setup_task ex_runner ex_world ''Y'' = (Inr (ex_setup ''Y'' ''crash''), ex_world_setup ''Y'')
   \<and> ex_agent (agent_call_of ex_runner (ex_setup ''Y'' ''crash'')) (ex_world_setup ''Y'') =
       (Raised (AgentError ''RuntimeError'' ''boom''), [(''out.txt'', File (Data ''half''))])
   \<and> map_of (final_output_dir (snd (run_single_task ex_runner ex_agent ex_world ''Y'')) ''Y'')
        ''execution_result.json'' =
       map_of (final_output_dir ex_world ''Y'') ''execution_result.json''"
proof -
  have sx: "setup_task ex_runner ex_world ''X'' =
              (Inr (ex_setup ''X'' ''convert''), ex_world_setup ''X'')"
    using ex_setup_task[of "''X''"] by simp
  have ax: "ex_agent (agent_call_of ex_runner (ex_setup ''X'' ''convert'')) (ex_world_setup ''X'') =
              (Returned (JsonValue ''done''), ex_scratch)"
    by (simp add: ex_agent_def agent_call_of_def ex_setup_def)
  have repo: "path_name (Path (st_repository (ex_setup ''X'' ''convert''))) = ''foo''"
    by (simp add: ex_setup_def path_defs)
  have wf: "wf_node (Dir ex_scratch)" by (simp add: ex_scratch_def)
  have dx: "final_output_dir ex_world ''X'' = []" by (simp add: final_output_dir_def ex_world_def)
  have fits: "\<forall>(n, x) \<in> set ex_scratch. \<not> skipped ''foo'' (n, x) \<longrightarrow>
                fits x (map_of (final_output_dir ex_world ''X'') n)"
    by (simp add: dx)
  have f1: "fits (File (Data ''hello'')) (map_of (final_output_dir ex_world ''X'') ''out.txt'')"
    and f2: "fits (Dir [(''run.log'', File (Data ''started''))])
               (map_of (final_output_dir ex_world ''X'') ''logs'')"
    by (simp_all add: dx)
  have sy: "setup_task ex_runner ex_world ''Y'' =
              (Inr (ex_setup ''Y'' ''crash''), ex_world_setup ''Y'')"
    using ex_setup_task[of "''Y''"] by simp
  have ay: "ex_agent (agent_call_of ex_runner (ex_setup ''Y'' ''crash'')) (ex_world_setup ''Y'') =
              (Raised (AgentError ''RuntimeError'' ''boom''), [(''out.txt'', File (Data ''half''))])"
    by (simp add: ex_agent_def agent_call_of_def ex_setup_def)
  note tx = outputs_collected_when_agent_returns
              [where ag = ex_agent, OF sx ax refl refl refl, unfolded repo]
  note ty = outputs_collected_when_agent_returns [where ag = ex_agent, OF sy ay refl refl refl]
  have mx: "\<forall>(n, x) \<in> set ex_scratch. \<not> skipped ''foo'' (n, x) \<longrightarrow>
              n \<noteq> ''execution_result.json'' \<longrightarrow> n \<noteq> ''execution_error.json'' \<longrightarrow>
              merged x (map_of (final_output_dir ex_world ''X'') n)
                (map_of (final_output_dir (snd (run_single_task ex_runner ex_agent ex_world ''X''))
                   ''X'') n)"
    using tx wf fits by blast
  have m1: "map_of (final_output_dir (snd (run_single_task ex_runner ex_agent ex_world ''X'')) ''X'')
              ''out.txt'' = Some (File (Data ''hello''))"
    using mx by (simp add: ex_scratch_def skipped_def)
  have m2: "merged (Dir [(''run.log'', File (Data ''started''))]) None
        (map_of (final_output_dir (snd (run_single_task ex_runner ex_agent ex_world ''X'')) ''X'')
           ''logs'')"
    using mx by (simp add: ex_scratch_def skipped_def dx)
  have m3: "map_of (final_output_dir (snd (run_single_task ex_runner ex_agent ex_world ''Y'')) ''Y'')
              ''execution_result.json'' =
            map_of (final_output_dir ex_world ''Y'') ''execution_result.json''"
    using ty by simp
  show ?thesis
    by (intro conjI) (rule sx ax wf f1 f2 m1 m2 sy ay m3)+
qed

text \<open>
  C1 as stated fails when the agent raises: in the run of \<open>Y\<close> the agent leaves the
  regular file \<open>out.txt\<close> in the scratch directory and raises; the run ends with the
  failure result, and the output directory has no \<open>out.txt\<close>.
\<close>

theorem nothing_collected_when_agent_raises:
  "ex_agent (agent_call_of ex_runner (ex_setup ''Y'' ''crash'')) (ex_world_setup ''Y'') =
       (Raised (AgentError ''RuntimeError'' ''boom''), [(''out.txt'', File (Data ''half''))])
   \<and> fst (run_single_task ex_runner ex_agent ex_world ''Y'') =
       Inr (Failed \<lparr>e_task_id = ''Y'', e_success = False,
                     e_error = AgentError ''RuntimeError'' ''boom'',
                     e_output_dir = ''results/Y''\<rparr>)
   \<and> map_of (final_output_dir (snd (run_single_task ex_runner ex_agent ex_world ''Y'')) ''Y'')
        ''out.txt'' = None"
  by (simp add: run_defs ex_defs path_defs)

text \<open>
  C2, as the code has it. Line 190 skips an entry of the scratch directory that is a
  directory named as the repository or \<open>input_dataset\<close>; a regular file of such a name
  is copied like any other. So, for either name: unless the scratch directory has a
  regular file of that name, the output directory has under that name after the run
  what it had before; in particular nothing, if it had nothing.
\<close>

theorem skipped_directories_not_copied:
  assumes "setup_task R w task_id = (Inr st, w2)"
      and "ag (agent_call_of R st) w2 = (oc, scratch)"
      and "n \<in> set [path_name (Path (st_repository st)), ''input_dataset'']"
      and "\<forall>c. (n, File c) \<notin> set scratch"
      and "n \<noteq> ''execution_result.json''" and "n \<noteq> ''execution_error.json''"
  shows "map_of (final_output_dir (snd (run_single_task R ag w task_id)) task_id) n =
           map_of (final_output_dir w task_id) n"
proof -
  note fr = run_single_task_frame[where ag = ag, OF assms(1,2,5,6)]
  show ?thesis
  proof (cases oc)
    case (Raised e)
    then show ?thesis using fr by simp
  next
    case (Returned p)
    then show ?thesis using fr collect_outputs_skips[OF assms(3,4)] by simp
  qed
qed

theorem skipped_directories_not_copied_witness:
  "setup_task ex_runner ex_world ''X'' = (Inr (ex_setup ''X'' ''convert''), ex_world_setup ''X'')
   \<and> ex_agent (agent_call_of ex_runner (ex_setup ''X'' ''convert'')) (ex_world_setup ''X'') =
       (Returned (JsonValue ''done''), ex_scratch)
   \<and> ''input_dataset'' \<in> set [path_name (Path (st_repository (ex_setup ''X'' ''convert''))),
                                 ''input_dataset'']
   \<and> (''input_dataset'', Dir [(''in.txt'', File (Data ''input''))]) \<in> set ex_scratch
   \<and> (\<forall>c. (''input_dataset'', File c) \<notin> set ex_scratch)
   \<and> map_of (final_output_dir (snd (run_single_task ex_runner ex_agent ex_world ''X'')) ''X'')
        ''input_dataset'' = None"
proof -
  have sx: "setup_task ex_runner ex_world ''X'' =
              (Inr (ex_setup ''X'' ''convert''), ex_world_setup ''X'')"
    using ex_setup_task[of "''X''"] by simp
  have ax: "ex_agent (agent_call_of ex_runner (ex_setup ''X'' ''convert'')) (ex_world_setup ''X'') =
              (Returned (JsonValue ''done''), ex_scratch)"
    by (simp add: ex_agent_def agent_call_of_def ex_setup_def)
  have n: "''input_dataset'' \<in> set [path_name (Path (st_repository (ex_setup ''X'' ''convert''))),
                                 ''input_dataset'']"
    by simp
  have nf: "\<forall>c. (''input_dataset'', File c) \<notin> set ex_scratch" by (simp add: ex_scratch_def)
  have isin: "(''input_dataset'', Dir [(''in.txt'', File (Data ''input''))]) \<in> set ex_scratch"
    by (simp add: ex_scratch_def)
  have dx: "final_output_dir ex_world ''X'' = []" by (simp add: final_output_dir_def ex_world_def)
  show ?thesis
    using sx ax n nf isin
      skipped_directories_not_copied [where ag = ex_agent, OF sx ax n nf]
    by (simp add: dx)
qed

text \<open>
  C2 as stated fails: in the successful run of \<open>F\<close> the agent leaves a regular file named
  \<open>input_dataset\<close>, and the output directory has an entry of that name afterwards.
\<close>

theorem dataset_named_file_is_copied:
  "ex_agent (agent_call_of ex_runner (ex_setup ''F'' ''dataset file'')) (ex_world_setup ''F'') =
       (Returned (JsonValue ''done''), [(''input_dataset'', File (Data ''listing''))])
   \<and> fst (run_single_task ex_runner ex_agent ex_world ''F'') =
       Inr (Succeeded \<lparr>r_task_id = ''F'', r_success = True, r_result = JsonValue ''done'',
                        r_output_dir = ''results/F'', r_repository = ''/bench/code_base/foo'',
                        r_task_description = ''dataset file''\<rparr>)
   \<and> map_of (final_output_dir (snd (run_single_task ex_runner ex_agent ex_world ''F'')) ''F'')
        ''input_dataset'' = Some (File (Data ''listing''))"
  by (simp add: run_defs ex_defs path_defs)

section \<open>The result file and the error file\<close>

lemma dump_result_None:
  "dump_result d rd = (None, d2) \<Longrightarrow>
     map_of d2 ''execution_result.json'' = Some (File (ResultJson rd))"
  by (auto simp: dump_result_def AList.update_conv'
      split: option.splits node.splits payload.splits)

lemma dump_result_Some:
  "dump_result d rd = (Some e, d2) \<Longrightarrow> \<forall>v. r_result rd \<noteq> PyObject v \<Longrightarrow> d2 = d"
  by (auto simp: dump_result_def split: option.splits node.splits payload.splits)

text \<open>
  C6, as the code has it. Take a run that ends with a result, whose scratch directory
  has no top-level entry named like one of the two files, and whose agent did not return
  a payload that \<^verbatim>\<open>json.dump\<close> cannot serialise. On success the result file holds the
  result and the error file is as it was before the run; on failure the error file
  holds the error and the result file is as it was before the run.
\<close>

theorem one_json_file_per_outcome:
  assumes "run_single_task R ag w task_id = (Inr r, w')"
      and "setup_task R w task_id = (Inr st, w2)"
      and "ag (agent_call_of R st) w2 = (oc, scratch)"
      and "''execution_result.json'' \<notin> fst ` set scratch"
      and "''execution_error.json'' \<notin> fst ` set scratch"
      and "\<forall>v. oc \<noteq> Returned (PyObject v)"
      and "d = final_output_dir w task_id"
      and "d' = final_output_dir w' task_id"
  shows "(success r \<longrightarrow>
            (\<exists>rd. r = Succeeded rd \<and>
                  map_of d' ''execution_result.json'' = Some (File (ResultJson rd))) \<and>
            map_of d' ''execution_error.json'' = map_of d ''execution_error.json'')
         \<and> (\<not> success r \<longrightarrow>
            (\<exists>ed. r = Failed ed \<and>
                  map_of d' ''execution_error.json'' = Some (File (ErrorJson ed))) \<and>
            map_of d' ''execution_result.json'' = map_of d ''execution_result.json'')"
proof -
  let ?res = "''execution_result.json''" and ?err = "''execution_error.json''"
  let ?w1 = "w2\<lparr>tmp := AList.update (st_temp_work_dir st) (Dir scratch) (tmp w2)\<rparr>"
  have ne: "?res \<noteq> ?err" by simp
  have d2: "final_output_dir w2 task_id = d" using setup_task_Inr(1)[OF assms(2)] assms(7) by simp
  have handler: "\<not> success r \<and>
            (\<exists>ed. r = Failed ed \<and> map_of d' ?err = Some (File (ErrorJson ed))) \<and>
            map_of d' ?res = map_of dx ?res"
    if eb: "except_block R wx task_id st e = (Inr r, w')" and dx: "final_output_dir wx task_id = dx"
    for wx e dx
    using except_block_Inr(1,2)[OF eb] except_block_frame(1)[OF eb, of ?res] dx assms(8)
    by simp
  show ?thesis
  proof (cases oc)
    case (Raised e)
    have eb: "except_block R ?w1 task_id st e = (Inr r, w')"
      using run_agent_raised[where ag = ag, OF assms(2) assms(3)[unfolded Raised]] assms(1)
      by simp
    have "final_output_dir ?w1 task_id = d" using d2 by simp
    from handler[OF eb this] show ?thesis by simp
  next
    case (Returned p)
    let ?repo = "path_name (Path (st_repository st))"
    obtain ce d1 where co: "collect_outputs ?repo scratch (final_output_dir w task_id) = (ce, d1)"
      by (cases "collect_outputs ?repo scratch (final_output_dir w task_id)")
    have d1res: "map_of d1 ?res = map_of d ?res" and d1err: "map_of d1 ?err = map_of d ?err"
      using collect_outputs_frame[OF assms(4), of ?repo d]
            collect_outputs_frame[OF assms(5), of ?repo d] co assms(7)
      by simp_all
    note r = run_agent_returned[where ag = ag, OF assms(2) assms(3)[unfolded Returned] co,
               unfolded Let_def]
    let ?rd = "\<lparr>r_task_id = task_id, r_success = True, r_result = p,
                 r_output_dir = final_output_dir_str R task_id,
                 r_repository = st_repository st,
                 r_task_description = st_task_description st\<rparr>"
    have ser: "\<forall>v. r_result ?rd \<noteq> PyObject v" using assms(6) Returned by simp
    show ?thesis
    proof (cases ce)
      case (Some e)
      have eb: "except_block R (set_final_output_dir ?w1 task_id d1) task_id st e = (Inr r, w')"
        using r Some assms(1) by simp
      from handler[OF eb, of d1] d1res show ?thesis by simp
    next
      case None
      obtain de dd where dr: "dump_result d1 ?rd = (de, dd)" by (cases "dump_result d1 ?rd")
      show ?thesis
      proof (cases de)
        case (Some e)
        have eb: "except_block R (set_final_output_dir ?w1 task_id dd) task_id st e = (Inr r, w')"
          using r None Some dr assms(1) by simp
        have "dd = d1" using dump_result_Some[OF dr[unfolded Some] ser] .
        with handler[OF eb, of dd] d1res show ?thesis by simp
      next
        case None2: None
        have rw: "r = Succeeded ?rd" "w' = rmtree (set_final_output_dir ?w1 task_id dd)
                                             (st_temp_work_dir st)"
          using r None None2 dr assms(1) by simp_all
        have dd: "d' = dd" using rw(2) assms(8) by simp
        have "map_of dd ?res = Some (File (ResultJson ?rd))"
          using dump_result_None[OF dr[unfolded None2]] .
        moreover have "map_of dd ?err = map_of d1 ?err"
          using dump_result_frame[of ?err d1 ?rd] dr by simp
        ultimately show ?thesis using rw(1) dd d1err by simp
      qed
    qed
  qed
qed

theorem one_json_file_per_outcome_witness:
  "run_single_task ex_runner ex_agent ex_world ''X'' =
     (Inr (Succeeded \<lparr>r_task_id = ''X'', r_success = True, r_result = JsonValue ''done'',
                       r_output_dir = ''results/X'', r_repository = ''/bench/code_base/foo'',
                       r_task_description = ''convert''\<rparr>),
      snd (run_single_task ex_runner ex_agent ex_world ''X''))
   \<and> setup_task ex_runner ex_world ''X'' = (Inr (ex_setup ''X'' ''convert''), ex_world_setup ''X'')
   \<and> ex_agent (agent_call_of ex_runner (ex_setup ''X'' ''convert'')) (ex_world_setup ''X'') =
       (Returned (JsonValue ''done''), ex_scratch)
   \<and> ''execution_result.json'' \<notin> fst ` set ex_scratch
   \<and> ''execution_error.json'' \<notin> fst ` set ex_scratch
   \<and> map_of (final_output_dir (snd (run_single_task ex_runner ex_agent ex_world ''X'')) ''X'')
        ''execution_result.json'' =
       Some (File (ResultJson
          \<lparr>r_task_id = ''X'', r_success = True, r_result = JsonValue ''done'',
           r_output_dir = ''results/X'', r_repository = ''/bench/code_base/foo'',
           r_task_description = ''convert''\<rparr>))
   \<and> map_of (final_output_dir (snd (run_single_task ex_runner ex_agent ex_world ''X'')) ''X'')
        ''execution_error.json'' = None
   \<and> run_single_task ex_runner ex_agent ex_world ''Y'' =
     (Inr (Failed \<lparr>e_task_id = ''Y'', e_success = False,
                   e_error = AgentError ''RuntimeError'' ''boom'',
                   e_output_dir = ''results/Y''\<rparr>),
      snd (run_single_task ex_runner ex_agent ex_world ''Y''))
   \<and> map_of (final_output_dir (snd (run_single_task ex_runner ex_agent ex_world ''Y'')) ''Y'')
        ''execution_error.json'' =
       Some (File (ErrorJson \<lparr>e_task_id = ''Y'', e_success = False,
                   e_error = AgentError ''RuntimeError'' ''boom'',
                   e_output_dir = ''results/Y''\<rparr>))
   \<and> map_of (final_output_dir (snd (run_single_task ex_runner ex_agent ex_world ''Y'')) ''Y'')
        ''execution_result.json'' = None"
proof -
  have rx: "run_single_task ex_runner ex_agent ex_world ''X'' =
     (Inr (Succeeded \<lparr>r_task_id = ''X'', r_success = True, r_result = JsonValue ''done'',
                       r_output_dir = ''results/X'', r_repository = ''/bench/code_base/foo'',
                       r_task_description = ''convert''\<rparr>),
      snd (run_single_task ex_runner ex_agent ex_world ''X''))"
    by (simp add: run_defs ex_defs path_defs)
  have sx: "setup_task ex_runner ex_world ''X'' =
              (Inr (ex_setup ''X'' ''convert''), ex_world_setup ''X'')"
    using ex_setup_task[of "''X''"] by simp
  have ax: "ex_agent (agent_call_of ex_runner (ex_setup ''X'' ''convert'')) (ex_world_setup ''X'') =
              (Returned (JsonValue ''done''), ex_scratch)"
    by (simp add: ex_agent_def agent_call_of_def ex_setup_def)
  have n1: "''execution_result.json'' \<notin> fst ` set ex_scratch"
    and n2: "''execution_error.json'' \<notin> fst ` set ex_scratch"
    by (simp_all add: ex_scratch_def)
  have px: "\<forall>v. Returned (JsonValue ''done'') \<noteq> Returned (PyObject v)" by simp
  have ry: "run_single_task ex_runner ex_agent ex_world ''Y'' =
     (Inr (Failed \<lparr>e_task_id = ''Y'', e_success = False,
                   e_error = AgentError ''RuntimeError'' ''boom'',
                   e_output_dir = ''results/Y''\<rparr>),
      snd (run_single_task ex_runner ex_agent ex_world ''Y''))"
    by (simp add: run_defs ex_defs path_defs)
  have sy: "setup_task ex_runner ex_world ''Y'' =
              (Inr (ex_setup ''Y'' ''crash''), ex_world_setup ''Y'')"
    using ex_setup_task[of "''Y''"] by simp
  have ay: "ex_agent (agent_call_of ex_runner (ex_setup ''Y'' ''crash'')) (ex_world_setup ''Y'') =
              (Raised (AgentError ''RuntimeError'' ''boom''), [(''out.txt'', File (Data ''half''))])"
    by (simp add: ex_agent_def agent_call_of_def ex_setup_def)
  have m1: "''execution_result.json'' \<notin> fst ` set [(''out.txt'', File (Data ''half''))]"
    and m2: "''execution_error.json'' \<notin> fst ` set [(''out.txt'', File (Data ''half''))]"
    by simp_all
  have py: "\<forall>v. Raised (AgentError ''RuntimeError'' ''boom'') \<noteq> Returned (PyObject v)" by simp
  have dx: "final_output_dir ex_world ''X'' = []" "final_output_dir ex_world ''Y'' = []"
    by (simp_all add: final_output_dir_def ex_world_def)
  note tx = one_json_file_per_outcome [where ag = ex_agent, OF rx sx ax n1 n2 px refl refl]
  note ty = one_json_file_per_outcome [where ag = ex_agent, OF ry sy ay m1 m2 py refl refl]
  show ?thesis using rx sx ax n1 n2 ry tx ty by (simp add: dx)
qed

text \<open>
  C6 as stated fails. The output directory of \<open>P\<close> holds the result file of an earlier,
  successful run. In the new run the agent returns an object that \<^verbatim>\<open>json.dump\<close>
  cannot serialise: the result file has been opened and truncated when \<^verbatim>\<open>json.dump\<close>
  raises, the handler then writes the error file, and the run ends as a failure. Both
  files were written, and the result file of the earlier run is gone.
\<close>

theorem both_json_files_written:
  "map_of (final_output_dir ex_world_rerun ''P'') ''execution_result.json'' =
       Some (File (ResultJson ex_old_result))
   \<and> fst (run_single_task ex_runner ex_agent ex_world_rerun ''P'') =
       Inr (Failed \<lparr>e_task_id = ''P'', e_success = False, e_error = TypeError,
                     e_output_dir = ''results/P''\<rparr>)
   \<and> map_of (final_output_dir (snd (run_single_task ex_runner ex_agent ex_world_rerun ''P'')) ''P'')
        ''execution_error.json'' =
       Some (File (ErrorJson \<lparr>e_task_id = ''P'', e_success = False, e_error = TypeError,
                                e_output_dir = ''results/P''\<rparr>))
   \<and> map_of (final_output_dir (snd (run_single_task ex_runner ex_agent ex_world_rerun ''P'')) ''P'')
        ''execution_result.json'' =
       Some (File (TruncatedJson
          \<lparr>r_task_id = ''P'', r_success = True, r_result = PyObject ''<Answer object>'',
           r_output_dir = ''results/P'', r_repository = ''/bench/code_base/foo'',
           r_task_description = ''object''\<rparr>))"
  by (simp add: run_defs ex_defs path_defs)

section \<open>Batches\<close>

lemma run_single_task_stores:
  assumes "run_single_task R ag w task_id = (res, w')"
  shows "metadata w' = metadata w \<and> queries w' = queries w"
proof (cases "setup_task R w task_id")
  case (Pair sr w2)
  show ?thesis
  proof (cases sr)
    case (Inl e)
    then show ?thesis using Pair assms setup_task_Inl(2,3)[of R w task_id e w2]
      by (simp add: run_single_task_def)
  next
    case (Inr st)
    have su: "setup_task R w task_id = (Inr st, w2)" using Pair Inr by simp
    note s2 = setup_task_Inr(6,7)[OF su]
    obtain tr w3 where tb: "try_block R ag w2 task_id st = (tr, w3)"
      by (cases "try_block R ag w2 task_id st")
    have s3: "metadata w3 = metadata w2 \<and> queries w3 = queries w2"
      using tb by (auto simp: try_block_def Let_def split: prod.splits agent_outcome.splits
                                option.splits)
    show ?thesis
    proof (cases tr)
      case (Inl e)
      then have "except_block R w3 task_id st e = (res, w')"
        using assms su tb by (simp add: run_single_task_def)
      from except_block_frame(3,4)[OF this] s2 s3 show ?thesis by simp
    next
      case (Inr rd)
      then have "w' = w3" using assms su tb by (simp add: run_single_task_def)
      then show ?thesis using s2 s3 by simp
    qed
  qed
qed

lemma load_task_config_stores:
  "metadata w' = metadata w \<Longrightarrow> queries w' = queries w \<Longrightarrow>
   load_task_config R w' task_id = load_task_config R w task_id"
  by (simp add: load_task_config_def Let_def split: option.splits)

lemma run_single_task_task_id:
  assumes "run_single_task R ag w task_id = (Inr r, w')"
  shows "result_task_id r = task_id"
  using assms
  by (auto simp: run_single_task_def try_block_def except_block_def Let_def
      split: prod.splits sum.splits agent_outcome.splits option.splits)

lemma save_progress_Inr:
  assumes "save_progress w rs = Inr w'"
  shows "map_of (out w') ''evaluation_progress.json'' = Some (File (ProgressJson rs))"
    and "metadata w' = metadata w" and "queries w' = queries w"
    and "n \<noteq> ''evaluation_progress.json'' \<Longrightarrow> map_of (out w') n = map_of (out w) n"
  using assms
  by (auto simp: save_progress_def write_file_def AList.update_conv'
      split: sum.splits option.splits node.splits)

lemma batch_loop_append:
  "batch_loop R ag (pre @ post) rs succ fails w =
     (case batch_loop R ag pre rs succ fails w of
        (Inl e, w1) \<Rightarrow> (Inl e, w1)
      | (Inr (rs1, succ1, fails1), w1) \<Rightarrow> batch_loop R ag post rs1 succ1 fails1 w1)"
  by (induction pre arbitrary: rs succ fails w)
     (auto split: prod.splits sum.splits)

lemma batch_loop_stores:
  "batch_loop R ag ids rs succ fails w = (res, w') \<Longrightarrow>
   metadata w' = metadata w \<and> queries w' = queries w"
proof (induction ids arbitrary: rs succ fails w)
  case Nil
  then show ?case by simp
next
  case (Cons t ids)
  obtain sr w1 where r: "run_single_task R ag w t = (sr, w1)"
    by (cases "run_single_task R ag w t")
  note s1 = run_single_task_stores[OF r]
  show ?case
  proof (cases sr)
    case (Inl e)
    then show ?thesis using Cons.prems r s1 by simp
  next
    case (Inr x)
    show ?thesis
    proof (cases "save_progress w1 (rs @ [x])")
      case (Inl e)
      then show ?thesis using Cons.prems r Inr s1 by simp
    next
      case Inr2: (Inr w2)
      note s2 = save_progress_Inr(2,3)[OF Inr2]
      show ?thesis
      proof (cases "success x")
        case True
        then have "batch_loop R ag ids (rs @ [x]) (succ + 1) fails w2 = (res, w')"
          using Cons.prems r Inr Inr2 by simp
        from Cons.IH[OF this] s1 s2 show ?thesis by simp
      next
        case False
        then have "batch_loop R ag ids (rs @ [x]) succ (fails + 1) w2 = (res, w')"
          using Cons.prems r Inr Inr2 by simp
        from Cons.IH[OF this] s1 s2 show ?thesis by simp
      qed
    qed
  qed
qed

lemma batch_loop_results:
  "batch_loop R ag ids rs succ fails w = (Inr (rs', succ', fails'), w') \<Longrightarrow>
   \<exists>new. rs' = rs @ new \<and> map result_task_id new = ids \<and>
         succ' = succ + length (filter success new) \<and>
         fails' = fails + length (filter (\<lambda>r. \<not> success r) new) \<and>
         (ids \<noteq> [] \<longrightarrow>
            map_of (out w') ''evaluation_progress.json'' = Some (File (ProgressJson rs')))"
proof (induction ids arbitrary: rs succ fails w)
  case Nil
  then show ?case by simp
next
  case (Cons t ids)
  obtain sr w1 where r: "run_single_task R ag w t = (sr, w1)"
    by (cases "run_single_task R ag w t")
  from Cons.prems r obtain x where sr: "sr = Inr x" by (cases sr) auto
  have tid: "result_task_id x = t" using run_single_task_task_id r sr by blast
  from Cons.prems r sr obtain w2 where sp: "save_progress w1 (rs @ [x]) = Inr w2"
    by (cases "save_progress w1 (rs @ [x])") auto
  note pf = save_progress_Inr(1)[OF sp]
  let ?s = "if success x then succ + 1 else succ"
  let ?f = "if success x then fails else fails + 1"
  have rec: "batch_loop R ag ids (rs @ [x]) ?s ?f w2 = (Inr (rs', succ', fails'), w')"
    using Cons.prems r sr sp by (simp split: if_splits)
  from Cons.IH[OF rec] obtain new where new:
    "rs' = (rs @ [x]) @ new" "map result_task_id new = ids"
    "succ' = ?s + length (filter success new)"
    "fails' = ?f + length (filter (\<lambda>r. \<not> success r) new)"
    "ids \<noteq> [] \<longrightarrow> map_of (out w') ''evaluation_progress.json'' = Some (File (ProgressJson rs'))"
    by blast
  have last: "map_of (out w') ''evaluation_progress.json'' = Some (File (ProgressJson rs'))"
  proof (cases ids)
    case Nil
    then show ?thesis using rec pf new(1,2) by simp
  next
    case (Cons a list)
    then show ?thesis using new(5) by simp
  qed
  show ?case
  proof (intro exI[of _ "x # new"] conjI)
    show "rs' = rs @ x # new" using new(1) by simp
    show "map result_task_id (x # new) = t # ids" using new(2) tid by simp
    show "succ' = succ + length (filter success (x # new))" using new(3) by simp
    show "fails' = fails + length (filter (\<lambda>r. \<not> success r) (x # new))" using new(4) by simp
    show "t # ids \<noteq> [] \<longrightarrow>
            map_of (out w') ''evaluation_progress.json'' = Some (File (ProgressJson rs'))"
      using last by simp
  qed
qed

lemma generate_summary_Inr:
  assumes "generate_summary R w rs succ fails = (Inr summ, w')"
  shows "summ = \<lparr>total_tasks = length rs, successful = succ, failed = fails,
                  success_rate = success_rate_str succ (length rs),
                  s_api_type = api_type R, s_output_root = path_str (output_root R),
                  results = rs\<rparr>"
    and "map_of (out w') ''evaluation_summary.json'' = Some (File (SummaryJson summ))"
    and "n \<noteq> ''evaluation_summary.json'' \<Longrightarrow> map_of (out w') n = map_of (out w) n"
  using assms
  by (auto simp: generate_summary_def write_file_def Let_def AList.update_conv'
      split: sum.splits option.splits node.splits)

lemma success_rate_half: "success_rate_str 1 2 = ''50.00%''"
  by (simp add: success_rate_str_def to_double_def scaled_def round_half_even_def format_2f_def)

text \<open>
  C9. A task whose record, as loaded, has no repository (the list is absent or empty):
  \<^verbatim>\<open>run_single_task\<close> raises the \<^verbatim>\<open>ValueError\<close> "No repository found" and the world is
  what it was: no scratch directory, no output directory, no error JSON. In a batch the
  exception leaves the loop when the task is reached: the batch ends with it, in the
  world the tasks before it have left, whatever tasks follow; no summary is made.
\<close>

theorem no_repository_aborts_batch:
  assumes "load_task_config R w0 task_id = Inr ti"
      and "repositories ti = None \<or> repositories ti = Some []"
  shows "run_single_task R ag w0 task_id =
           (Inl (ValueError (''No repository found for task '' @ task_id)), w0)
         \<and> (\<forall>pre post rs1 succ1 fails1 w1.
              batch_loop R ag pre [] 0 0 w0 = (Inr (rs1, succ1, fails1), w1) \<longrightarrow>
              batch_loop R ag (pre @ task_id # post) [] 0 0 w0 =
                (Inl (ValueError (''No repository found for task '' @ task_id)), w1) \<and>
              run_batch R ag w0 (Some (pre @ task_id # post)) None =
                (Inl (ValueError (''No repository found for task '' @ task_id)), w1))"
proof -
  have empty: "get_or (repositories ti) [] = []" using assms(2) by (auto simp: get_or_def)
  have single: "run_single_task R ag w task_id =
           (Inl (ValueError (''No repository found for task '' @ task_id)), w)"
    if "metadata w = metadata w0" "queries w = queries w0" for w
  proof -
    have "load_task_config R w task_id = Inr ti"
      using load_task_config_stores[OF that] assms(1) by simp
    then show ?thesis using empty by (simp add: run_single_task_def setup_task_def)
  qed
  have batch: "batch_loop R ag (pre @ task_id # post) [] 0 0 w0 =
                (Inl (ValueError (''No repository found for task '' @ task_id)), w1)"
    if pre: "batch_loop R ag pre [] 0 0 w0 = (Inr (rs1, succ1, fails1), w1)"
    for pre post rs1 succ1 fails1 w1
  proof -
    have st: "metadata w1 = metadata w0" "queries w1 = queries w0"
      using batch_loop_stores[OF pre] by simp_all
    show ?thesis
      using pre single[OF st] by (simp add: batch_loop_append)
  qed
  show ?thesis
    using single[of w0] batch by (simp add: run_batch_def select_tasks_def)
qed

lemma ex_batch_X:
  "batch_loop ex_runner ex_agent [''X''] [] 0 0 ex_world =
     (Inr ([Succeeded \<lparr>r_task_id = ''X'', r_success = True, r_result = JsonValue ''done'',
                        r_output_dir = ''results/X'', r_repository = ''/bench/code_base/foo'',
                        r_task_description = ''convert''\<rparr>], 1, 0),
      snd (batch_loop ex_runner ex_agent [''X''] [] 0 0 ex_world))"
  by (simp add: run_defs ex_defs path_defs save_progress_def)

theorem no_repository_aborts_batch_witness:
  "load_task_config ex_runner ex_world ''N'' =
     Inr (ex_task_info\<lparr>task_description := Some ''convert'', repositories := Some [],
            input_data := Some [\<lparr>item_path = Some ''/GitTaskBench/queries/in.txt'', item_other = []\<rparr>,
                                \<lparr>item_path = Some ''notes/in.txt'', item_other = []\<rparr>]\<rparr>)
   \<and> run_single_task ex_runner ex_agent ex_world ''N'' =
       (Inl (ValueError ''No repository found for task N''), ex_world)
   \<and> run_batch ex_runner ex_agent ex_world (Some [''X'', ''N'', ''Y'']) None =
       (Inl (ValueError ''No repository found for task N''),
        snd (batch_loop ex_runner ex_agent [''X''] [] 0 0 ex_world))
   \<and> map_of (out (snd (batch_loop ex_runner ex_agent [''X''] [] 0 0 ex_world))) ''Y'' = None
   \<and> map_of (out (snd (batch_loop ex_runner ex_agent [''X''] [] 0 0 ex_world)))
        ''evaluation_summary.json'' = None"
proof -
  have h1: "load_task_config ex_runner ex_world ''N'' =
     Inr (ex_task_info\<lparr>task_description := Some ''convert'', repositories := Some [],
            input_data := Some [\<lparr>item_path = Some ''/GitTaskBench/queries/in.txt'', item_other = []\<rparr>,
                                \<lparr>item_path = Some ''notes/in.txt'', item_other = []\<rparr>]\<rparr>)"
    by (simp add: load_task_config_def ex_defs get_or_def)
  have h2: "repositories (ex_task_info\<lparr>task_description := Some ''convert'', repositories := Some [],
            input_data := Some [\<lparr>item_path = Some ''/GitTaskBench/queries/in.txt'', item_other = []\<rparr>,
                                \<lparr>item_path = Some ''notes/in.txt'', item_other = []\<rparr>]\<rparr>) = None
          \<or> repositories (ex_task_info\<lparr>task_description := Some ''convert'', repositories := Some [],
            input_data := Some [\<lparr>item_path = Some ''/GitTaskBench/queries/in.txt'', item_other = []\<rparr>,
                                \<lparr>item_path = Some ''notes/in.txt'', item_other = []\<rparr>]\<rparr>) = Some []"
    by simp
  note t = no_repository_aborts_batch [where ag = ex_agent, OF h1 h2]
  have b: "run_batch ex_runner ex_agent ex_world (Some ([''X''] @ ''N'' # [''Y''])) None =
       (Inl (ValueError (''No repository found for task '' @ ''N'')),
        snd (batch_loop ex_runner ex_agent [''X''] [] 0 0 ex_world))"
    using t ex_batch_X by blast
  have o: "map_of (out (snd (batch_loop ex_runner ex_agent [''X''] [] 0 0 ex_world))) ''Y'' = None"
    "map_of (out (snd (batch_loop ex_runner ex_agent [''X''] [] 0 0 ex_world)))
        ''evaluation_summary.json'' = None"
    by (simp_all add: run_defs ex_defs path_defs save_progress_def)
  show ?thesis using h1 t b o by simp
qed

lemma run_batch_Inr:
  assumes "run_batch R ag w0 tids mx = (Inr summ, w')"
  shows "\<exists>succ fails w1.
           batch_loop R ag (select_tasks w0 tids mx) [] 0 0 w0 = (Inr (results summ, succ, fails), w1) \<and>
           generate_summary R w1 (results summ) succ fails = (Inr summ, w')"
proof -
  obtain br w1 where bl: "batch_loop R ag (select_tasks w0 tids mx) [] 0 0 w0 = (br, w1)"
    by (cases "batch_loop R ag (select_tasks w0 tids mx) [] 0 0 w0")
  from assms bl obtain rs succ fails where br: "br = Inr (rs, succ, fails)"
    by (cases br) (auto simp: run_batch_def)
  have gs: "generate_summary R w1 rs succ fails = (Inr summ, w')"
    using assms bl br by (simp add: run_batch_def)
  have "results summ = rs" using generate_summary_Inr(1)[OF gs] by simp
  then show ?thesis using bl br gs by auto
qed



lemma save_progress_writable:
  assumes "\<forall>sub. map_of (out w) ''evaluation_progress.json'' \<noteq> Some (Dir sub)"
  shows "\<exists>w'. save_progress w rs = Inr w'"
proof (cases "map_of (out w) ''evaluation_progress.json''")
  case None
  then show ?thesis by (simp add: save_progress_def write_file_def)
next
  case (Some y)
  with assms show ?thesis by (cases y) (simp_all add: save_progress_def write_file_def)
qed

text \<open>
  C3. A task whose agent raises, in a batch. Provided the places of the error JSON and
  of the progress JSON are not taken by directories (so that both can be opened for
  writing): \<^verbatim>\<open>run_single_task\<close> does not raise but returns the failure result for the
  exception; the error JSON holds it; the progress JSON holds the results so far,
  this one included; and the loop goes on with the tasks that follow, one more failure
  counted. For every batch that ends with a summary: after each task (each non-empty
  initial part \<open>pre\<close> of the selected tasks) the progress JSON held exactly the results
  of the tasks done so far; the summary counts the results, the successes and the
  failures; and with two tasks and one success it reports 2, 1, 1 and \<open>50.00%\<close>.
\<close>

theorem batch_isolates_agent_failure:
  assumes "setup_task R w task_id = (Inr st, w2)"
      and "ag (agent_call_of R st) w2 = (Raised e, scratch)"
      and "\<forall>sub. map_of (final_output_dir w task_id) ''execution_error.json'' \<noteq> Some (Dir sub)"
      and "\<forall>sub. map_of (out w) ''evaluation_progress.json'' \<noteq> Some (Dir sub)"
      and "task_id \<noteq> ''evaluation_progress.json''"
      and "ed = \<lparr>e_task_id = task_id, e_success = False, e_error = e,
                 e_output_dir = final_output_dir_str R task_id\<rparr>"
  shows "(\<exists>w1 w3. run_single_task R ag w task_id = (Inr (Failed ed), w1) \<and>
            map_of (final_output_dir w1 task_id) ''execution_error.json'' =
              Some (File (ErrorJson ed)) \<and>
            save_progress w1 (rs @ [Failed ed]) = Inr w3 \<and>
            map_of (out w3) ''evaluation_progress.json'' =
              Some (File (ProgressJson (rs @ [Failed ed]))) \<and>
            batch_loop R ag (task_id # ids) rs succ fails w =
              batch_loop R ag ids (rs @ [Failed ed]) succ (fails + 1) w3)
         \<and> (\<forall>summ w'. run_batch R ag w0 tids mx = (Inr summ, w') \<longrightarrow>
              total_tasks summ = length (results summ) \<and>
              successful summ = length (filter success (results summ)) \<and>
              failed summ = length (filter (\<lambda>r. \<not> success r) (results summ)) \<and>
              map result_task_id (results summ) = select_tasks w0 tids mx \<and>
              (\<forall>pre post. select_tasks w0 tids mx = pre @ post \<longrightarrow> pre \<noteq> [] \<longrightarrow>
                 (\<exists>succ1 fails1 w1.
                    batch_loop R ag pre [] 0 0 w0 =
                      (Inr (take (length pre) (results summ), succ1, fails1), w1) \<and>
                    map_of (out w1) ''evaluation_progress.json'' =
                      Some (File (ProgressJson (take (length pre) (results summ)))))) \<and>
              (total_tasks summ = 2 \<and> successful summ = 1 \<longrightarrow>
                 failed summ = 1 \<and> success_rate summ = ''50.00%''))"
proof (intro conjI allI impI)
  let ?w3 = "w2\<lparr>tmp := AList.update (st_temp_work_dir st) (Dir scratch) (tmp w2)\<rparr>"
  have r: "run_single_task R ag w task_id = except_block R ?w3 task_id st e"
    using run_agent_raised[where ag = ag, OF assms(1,2)] .
  have "final_output_dir ?w3 task_id = final_output_dir w task_id"
    using setup_task_Inr(1)[OF assms(1)] by simp
  then have wr: "\<forall>sub. map_of (final_output_dir ?w3 task_id) ''execution_error.json'' \<noteq> Some (Dir sub)"
    using assms(3) by simp
  from except_block_writable[OF wr, of R st e] obtain w1 where
    eb: "except_block R ?w3 task_id st e = (Inr (Failed ed), w1)"
    using assms(6) by auto
  have run: "run_single_task R ag w task_id = (Inr (Failed ed), w1)" using r eb by simp
  have ej: "map_of (final_output_dir w1 task_id) ''execution_error.json'' = Some (File (ErrorJson ed))"
    using except_block_Inr(2)[OF eb] assms(6) by simp
  have "map_of (out w1) ''evaluation_progress.json'' = map_of (out ?w3) ''evaluation_progress.json''"
    using except_block_frame(2)[OF eb, of "''evaluation_progress.json''"] assms(5) by simp
  also have "\<dots> = map_of (out w) ''evaluation_progress.json''"
    using setup_task_Inr(3)[OF assms(1), of "''evaluation_progress.json''"] assms(5) by simp
  finally have pd: "\<forall>sub. map_of (out w1) ''evaluation_progress.json'' \<noteq> Some (Dir sub)"
    using assms(4) by simp
  obtain w3 where sp: "save_progress w1 (rs @ [Failed ed]) = Inr w3"
    using save_progress_writable[OF pd] by blast
  have pj: "map_of (out w3) ''evaluation_progress.json'' = Some (File (ProgressJson (rs @ [Failed ed])))"
    using save_progress_Inr(1)[OF sp] .
  have ns: "\<not> success (Failed ed)" using assms(6) by simp
  have bl: "batch_loop R ag (task_id # ids) rs succ fails w =
              batch_loop R ag ids (rs @ [Failed ed]) succ (fails + 1) w3"
    using run sp ns by simp
  show "\<exists>w1 w3. run_single_task R ag w task_id = (Inr (Failed ed), w1) \<and>
            map_of (final_output_dir w1 task_id) ''execution_error.json'' =
              Some (File (ErrorJson ed)) \<and>
            save_progress w1 (rs @ [Failed ed]) = Inr w3 \<and>
            map_of (out w3) ''evaluation_progress.json'' =
              Some (File (ProgressJson (rs @ [Failed ed]))) \<and>
            batch_loop R ag (task_id # ids) rs succ fails w =
              batch_loop R ag ids (rs @ [Failed ed]) succ (fails + 1) w3"
    using run ej sp pj bl by blast
next
  fix summ w'
  assume rb: "run_batch R ag w0 tids mx = (Inr summ, w')"
  from run_batch_Inr[OF rb] obtain sc fl w1 where
    bl: "batch_loop R ag (select_tasks w0 tids mx) [] 0 0 w0 = (Inr (results summ, sc, fl), w1)"
    and gs: "generate_summary R w1 (results summ) sc fl = (Inr summ, w')"
    by blast
  from batch_loop_results[OF bl] have
    ids: "map result_task_id (results summ) = select_tasks w0 tids mx"
    and sc: "sc = length (filter success (results summ))"
    and fl: "fl = length (filter (\<lambda>r. \<not> success r) (results summ))"
    by auto
  note sm = generate_summary_Inr(1)[OF gs]
  have tot: "total_tasks summ = length (results summ)"
    by (subst sm) simp
  have suc: "successful summ = length (filter success (results summ))"
    using sc by (subst sm) simp
  have fai: "failed summ = length (filter (\<lambda>r. \<not> success r) (results summ))"
    using fl by (subst sm) simp
  have rate: "success_rate summ = success_rate_str (successful summ) (total_tasks summ)"
    by (subst sm, subst (2) sm, subst (3) sm) simp
  show "total_tasks summ = length (results summ)" by (rule tot)
  show "successful summ = length (filter success (results summ))" by (rule suc)
  show "failed summ = length (filter (\<lambda>r. \<not> success r) (results summ))" by (rule fai)
  show "map result_task_id (results summ) = select_tasks w0 tids mx" by (rule ids)
  have both: "successful summ + failed summ = total_tasks summ"
    using suc fai tot sum_length_filter_compl[of success "results summ"] by simp
  {
    assume two: "total_tasks summ = 2 \<and> successful summ = 1"
    then show "failed summ = 1" using both by simp
    show "success_rate summ = ''50.00%''" using rate two success_rate_half by simp
  }
  {
    fix pre post
    assume sel: "select_tasks w0 tids mx = pre @ post" and ne: "pre \<noteq> []"
    obtain pr wp where p: "batch_loop R ag pre [] 0 0 w0 = (pr, wp)"
      by (cases "batch_loop R ag pre [] 0 0 w0")
    from bl[unfolded sel batch_loop_append] p obtain rs1 s1 f1 where
      pr: "pr = Inr (rs1, s1, f1)"
      by (cases pr) auto
    have post: "batch_loop R ag post rs1 s1 f1 wp = (Inr (results summ, sc, fl), w1)"
      using bl[unfolded sel batch_loop_append] p pr by simp
    from batch_loop_results[OF p[unfolded pr]] ne have
      l1: "map result_task_id rs1 = pre"
      and pj: "map_of (out wp) ''evaluation_progress.json'' = Some (File (ProgressJson rs1))"
      by auto
    from batch_loop_results[OF post] obtain new where "results summ = rs1 @ new" by blast
    moreover have "length rs1 = length pre" using l1 by (metis length_map)
    ultimately have "take (length pre) (results summ) = rs1" by simp
    then show "\<exists>succ1 fails1 w1.
                    batch_loop R ag pre [] 0 0 w0 =
                      (Inr (take (length pre) (results summ), succ1, fails1), w1) \<and>
                    map_of (out w1) ''evaluation_progress.json'' =
                      Some (File (ProgressJson (take (length pre) (results summ))))"
      using p pr pj by auto
  }
qed

theorem batch_isolates_agent_failure_witness:
  "setup_task ex_runner ex_world ''Y'' = (Inr (ex_setup ''Y'' ''crash''), ex_world_setup ''Y'')
   \<and> ex_agent (agent_call_of ex_runner (ex_setup ''Y'' ''crash'')) (ex_world_setup ''Y'') =
       (Raised (AgentError ''RuntimeError'' ''boom''), [(''out.txt'', File (Data ''half''))])
   \<and> (\<forall>sub. map_of (final_output_dir ex_world ''Y'') ''execution_error.json'' \<noteq> Some (Dir sub))
   \<and> (\<forall>sub. map_of (out ex_world) ''evaluation_progress.json'' \<noteq> Some (Dir sub))
   \<and> ''Y'' \<noteq> ''evaluation_progress.json''
   \<and> (\<exists>w3. batch_loop ex_runner ex_agent [''Y'', ''X''] [] 0 0 ex_world =
              batch_loop ex_runner ex_agent [''X'']
                [Failed \<lparr>e_task_id = ''Y'', e_success = False,
                          e_error = AgentError ''RuntimeError'' ''boom'',
                          e_output_dir = ''results/Y''\<rparr>] 0 1 w3 \<and>
            map_of (out w3) ''evaluation_progress.json'' =
              Some (File (ProgressJson
                [Failed \<lparr>e_task_id = ''Y'', e_success = False,
                          e_error = AgentError ''RuntimeError'' ''boom'',
                          e_output_dir = ''results/Y''\<rparr>])))
   \<and> (\<exists>summ w'. run_batch ex_runner ex_agent ex_world (Some [''Y'', ''X'']) None = (Inr summ, w') \<and>
         total_tasks summ = 2 \<and> successful summ = 1 \<and> failed summ = 1 \<and>
         success_rate summ = ''50.00%'' \<and>
         map result_task_id (results summ) = [''Y'', ''X''] \<and>
         map success (results summ) = [False, True] \<and>
         (\<exists>succ1 fails1 w1.
             batch_loop ex_runner ex_agent [''Y''] [] 0 0 ex_world =
               (Inr (take 1 (results summ), succ1, fails1), w1) \<and>
             map_of (out w1) ''evaluation_progress.json'' =
               Some (File (ProgressJson (take 1 (results summ))))))"
proof -
  have sy: "setup_task ex_runner ex_world ''Y'' =
              (Inr (ex_setup ''Y'' ''crash''), ex_world_setup ''Y'')"
    using ex_setup_task[of "''Y''"] by simp
  have ay: "ex_agent (agent_call_of ex_runner (ex_setup ''Y'' ''crash'')) (ex_world_setup ''Y'') =
              (Raised (AgentError ''RuntimeError'' ''boom''), [(''out.txt'', File (Data ''half''))])"
    by (simp add: ex_agent_def agent_call_of_def ex_setup_def)
  have e1: "\<forall>sub. map_of (final_output_dir ex_world ''Y'') ''execution_error.json'' \<noteq> Some (Dir sub)"
    by (simp add: final_output_dir_def ex_world_def)
  have e2: "\<forall>sub. map_of (out ex_world) ''evaluation_progress.json'' \<noteq> Some (Dir sub)"
    by (simp add: ex_world_def)
  have e3: "''Y'' \<noteq> ''evaluation_progress.json''" by simp
  have od: "final_output_dir_str ex_runner ''Y'' = ''results/Y''"
    by (simp add: final_output_dir_str_def ex_runner_def path_defs)
  obtain summ w' where
    r: "run_batch ex_runner ex_agent ex_world (Some [''Y'', ''X'']) None = (Inr summ, w')"
    and t: "total_tasks summ = 2" and s: "successful summ = 1"
    and ms: "map success (results summ) = [False, True]"
    by (simp add: batch_defs run_defs ex_defs path_defs)
  note th = batch_isolates_agent_failure
     [where ag = ex_agent and rs = "[]" and ids = "[''X'']" and succ = 0 and fails = 0
        and ?w0.0 = ex_world and tids = "Some [''Y'', ''X'']" and mx = None,
      OF sy ay e1 e2 e3 refl, unfolded od]
  have sel: "select_tasks ex_world (Some [''Y'', ''X'']) None = [''Y''] @ [''X'']"
    by (simp add: select_tasks_def)
  have step: "\<exists>w3. batch_loop ex_runner ex_agent [''Y'', ''X''] [] 0 0 ex_world =
              batch_loop ex_runner ex_agent [''X'']
                [Failed \<lparr>e_task_id = ''Y'', e_success = False,
                          e_error = AgentError ''RuntimeError'' ''boom'',
                          e_output_dir = ''results/Y''\<rparr>] 0 1 w3 \<and>
            map_of (out w3) ''evaluation_progress.json'' =
              Some (File (ProgressJson
                [Failed \<lparr>e_task_id = ''Y'', e_success = False,
                          e_error = AgentError ''RuntimeError'' ''boom'',
                          e_output_dir = ''results/Y''\<rparr>]))"
    using th by auto
  have fin: "failed summ = 1 \<and> success_rate summ = ''50.00%'' \<and>
             map result_task_id (results summ) = [''Y'', ''X'']"
    using th r t s sel by auto
  have pre: "\<exists>succ1 fails1 w1.
             batch_loop ex_runner ex_agent [''Y''] [] 0 0 ex_world =
               (Inr (take 1 (results summ), succ1, fails1), w1) \<and>
             map_of (out w1) ''evaluation_progress.json'' =
               Some (File (ProgressJson (take 1 (results summ))))"
  proof -
    from th r have "\<forall>pre post. select_tasks ex_world (Some [''Y'', ''X'']) None = pre @ post \<longrightarrow>
          pre \<noteq> [] \<longrightarrow>
          (\<exists>succ1 fails1 w1.
              batch_loop ex_runner ex_agent pre [] 0 0 ex_world =
                (Inr (take (length pre) (results summ), succ1, fails1), w1) \<and>
              map_of (out w1) ''evaluation_progress.json'' =
                Some (File (ProgressJson (take (length pre) (results summ)))))"
      by blast
    from this[rule_format, OF sel] show ?thesis by simp
  qed
  have last: "\<exists>summ w'. run_batch ex_runner ex_agent ex_world (Some [''Y'', ''X'']) None = (Inr summ, w') \<and>
         total_tasks summ = 2 \<and> successful summ = 1 \<and> failed summ = 1 \<and>
         success_rate summ = ''50.00%'' \<and>
         map result_task_id (results summ) = [''Y'', ''X''] \<and>
         map success (results summ) = [False, True] \<and>
         (\<exists>succ1 fails1 w1.
             batch_loop ex_runner ex_agent [''Y''] [] 0 0 ex_world =
               (Inr (take 1 (results summ), succ1, fails1), w1) \<and>
             map_of (out w1) ''evaluation_progress.json'' =
               Some (File (ProgressJson (take 1 (results summ)))))"
    using r t s fin ms pre by (intro exI[of _ summ] exI[of _ w']) simp
  show ?thesis
    by (intro conjI) (rule sy ay e1 e2 e3 step last)+
qed

end
